theory Spec2Isabelle
  imports Main "HOL-Library.AList" "HOL-Library.Multiset"
begin

section \<open>JavaScript values and operators used by the services\<close>

text \<open>
  An optional string (\<^verbatim>\<open>string | undefined | null\<close>) is a \<^typ>\<open>string option\<close>.
  It is truthy when it is present and not the empty string.
\<close>

definition truthy :: "string option \<Rightarrow> bool" where
  "truthy v = (case v of None \<Rightarrow> False | Some s \<Rightarrow> s \<noteq> [])"

text \<open>\<^verbatim>\<open>a || b\<close> on two optional strings.\<close>

definition js_or :: "string option \<Rightarrow> string option \<Rightarrow> string option" where
  "js_or a b = (if truthy a then a else b)"

text \<open>\<^verbatim>\<open>a || 'literal'\<close>: the result is always a string.\<close>

definition or_else :: "string option \<Rightarrow> string \<Rightarrow> string" where
  "or_else v d = (case v of None \<Rightarrow> d | Some s \<Rightarrow> if s = [] then d else s)"

text \<open>A rejected promise or a thrown exception carries one of these.\<close>

datatype error = RequestFailed string | TypeError | SyntaxError

section \<open>Data model (src/types/news.ts)\<close>

text \<open>
  The interfaces keep their field names. A prefix tells apart the fields that
  two interfaces share (\<open>na_\<close> for NewsAPI, \<open>nyt_\<close> for the New York Times)
  and stands in where the name is taken (\<open>art_id\<close> for the \<open>id\<close> of an article,
  \<open>src_id\<close> and \<open>src_name\<close> for its \<open>source.id\<close> and \<open>source.name\<close>, \<open>g_id\<close> and
  \<open>g_fields\<close> for the Guardian's \<open>id\<close> and \<open>fields\<close>). A field that the adapters
  read through \<^verbatim>\<open>||\<close> or \<^verbatim>\<open>?.\<close> may be absent, whatever its declared
  type; the others are strings, as declared.
\<close>

record ArticleSource =
  src_id :: string
  src_name :: string

record NewsArticle =
  art_id :: string
  source :: ArticleSource
  title :: string
  description :: string
  url :: string
  imageUrl :: string
  publishedAt :: string
  author :: "string option"

record NewsApiSource =
  na_id :: "string option"
  na_name :: string

record NewsApiArticle =
  na_source :: NewsApiSource
  na_author :: "string option"
  na_title :: string
  na_description :: string
  na_url :: string
  na_urlToImage :: "string option"
  na_publishedAt :: string
  na_content :: string

record NYTMedia =
  media_url :: "string option"
  media_type :: "string option"

record NYTArticle =
  uri :: string
  nyt_title :: string
  abstract :: string
  nyt_url :: string
  multimedia :: "NYTMedia list option"
  published_date :: string
  byline :: "string option"

text \<open>
  The body of a New York Times response: the search endpoint answers with
  \<^verbatim>\<open>response.docs\<close>, the section endpoint with \<^verbatim>\<open>results\<close>.
\<close>

record NYTData =
  response_docs :: "NYTArticle list option"
  results :: "NYTArticle list option"

record GuardianFields =
  thumbnail :: "string option"
  bodyText :: "string option"
  trailText :: "string option"
  fields_byline :: "string option"

record GuardianArticle =
  g_id :: string
  webTitle :: string
  webUrl :: string
  webPublicationDate :: string
  g_fields :: "GuardianFields option"

record NewsFilters =
  searchQuery :: "string option"
  category :: "string option"
  fromDate :: "string option"
  toDate :: "string option"
  filter_author :: "string option"

text \<open>
  A \<^verbatim>\<open>NewsSource\<close> is one of the strings \<^verbatim>\<open>'newsapi'\<close>, \<^verbatim>\<open>'guardian'\<close>,
  \<^verbatim>\<open>'nytimes'\<close>; at run time it is a string, and the services have a
  \<^verbatim>\<open>default\<close> branch for any other.
\<close>

type_synonym NewsSource = string

section \<open>The outside world\<close>

type_synonym params = "(string \<times> string) list"

datatype client = NewsApiClient | NytClient | GuardianClient

datatype request = Get client string params

text \<open>
  What the program cannot decide itself: the answer of each HTTP client to a
  \<^verbatim>\<open>get\<close>, the API keys of the build, and \<^verbatim>\<open>new Date(s).getTime()\<close>,
  which is \<open>None\<close> for \<^verbatim>\<open>NaN\<close>. An answer is \<open>Inl\<close> when the request fails or
  the body has no list of items where the adapter reads one (the adapter then
  throws), and \<open>Inr\<close> the decoded items otherwise. The New York Times body is
  kept whole, since the adapter reads one of two places in it.
\<close>

record world =
  newsApiGet :: "string \<Rightarrow> params \<Rightarrow> error + NewsApiArticle list"
  nytGet :: "string \<Rightarrow> params \<Rightarrow> error + NYTData"
  guardianGet :: "string \<Rightarrow> params \<Rightarrow> error + GuardianArticle list"
  NYT_API_KEY :: string
  GUARDIAN_API_KEY :: string
  getTime :: "string \<Rightarrow> int option"

text \<open>
  An asynchronous call is modelled by the requests it issues, in order, and the
  outcome of its promise: \<open>Inl\<close> a rejection, \<open>Inr\<close> the value.
\<close>

type_synonym 'a async = "request list \<times> (error + 'a)"

section \<open>Provider adapters (services/api, in src/unnamed/part_002)\<close>

definition DEFAULT_IMAGE_URL :: string where
  "DEFAULT_IMAGE_URL = ''https://via.placeholder.com/400x200?text=No+Image+Available''"

text \<open>\<^verbatim>\<open>if (v) params[k] = v\<close>\<close>

definition set_param_if :: "string \<Rightarrow> string option \<Rightarrow> params \<Rightarrow> params" where
  "set_param_if k v ps =
     (case v of None \<Rightarrow> ps | Some s \<Rightarrow> if s = [] then ps else AList.update k s ps)"

definition normalizeNewsApi :: "NewsApiArticle \<Rightarrow> NewsArticle" where
  "normalizeNewsApi article =
     \<lparr> art_id = na_url article,
       source = \<lparr> src_id = or_else (na_id (na_source article)) ''unknown'',
                  src_name = na_name (na_source article) \<rparr>,
       title = na_title article,
       description = na_description article,
       url = na_url article,
       imageUrl = or_else (na_urlToImage article) DEFAULT_IMAGE_URL,
       publishedAt = na_publishedAt article,
       author = js_or (na_author article) None \<rparr>"

text \<open>The endpoint and the parameters of the NewsAPI request.\<close>

definition newsApiEndpoint :: "string option \<Rightarrow> string" where
  "newsApiEndpoint query = (if truthy query then ''/everything'' else ''/top-headlines'')"

definition newsApiParams ::
  "string option \<Rightarrow> string option \<Rightarrow> string option \<Rightarrow> string option \<Rightarrow> string option \<Rightarrow>
   params" where
  "newsApiParams query cat from to auth =
     (let p1 = set_param_if ''q'' query [];
          p2 = set_param_if ''category'' cat p1;
          p3 = set_param_if ''from'' from p2;
          p4 = set_param_if ''to'' to p3;
          p5 = set_param_if ''author'' auth p4;
          p6 = (if \<not> truthy query \<and> newsApiEndpoint query = ''/top-headlines''
                then AList.update ''country'' ''us'' p5 else p5)
      in AList.update ''pageSize'' ''20'' p6)"

definition fetchNewsApiArticles ::
  "world \<Rightarrow> string option \<Rightarrow> string option \<Rightarrow> string option \<Rightarrow> string option \<Rightarrow>
   string option \<Rightarrow> NewsArticle list async" where
  "fetchNewsApiArticles w query cat from to auth =
     (let endpoint = newsApiEndpoint query;
          ps = newsApiParams query cat from to auth
      in ([Get NewsApiClient endpoint ps],
          case newsApiGet w endpoint ps of
            Inl e \<Rightarrow> Inl e
          | Inr articles \<Rightarrow> Inr (map normalizeNewsApi articles)))"

text \<open>\<^verbatim>\<open>s.replace(/-/g, '')\<close>\<close>

definition strip_dashes :: "string \<Rightarrow> string" where
  "strip_dashes s = filter (\<lambda>c. c \<noteq> CHR ''-'') s"

text \<open>\<^verbatim>\<open>s.replace(/^By /, '')\<close>\<close>

definition strip_By :: "string \<Rightarrow> string" where
  "strip_By s = (if take 3 s = ''By '' then drop 3 s else s)"

text \<open>\<^verbatim>\<open>article.multimedia?.[0]?.url\<close>\<close>

definition first_media_url :: "NYTArticle \<Rightarrow> string option" where
  "first_media_url article =
     (case multimedia article of
        None \<Rightarrow> None
      | Some [] \<Rightarrow> None
      | Some (m # _) \<Rightarrow> media_url m)"

definition normalizeNYT :: "NYTArticle \<Rightarrow> NewsArticle" where
  "normalizeNYT article =
     \<lparr> art_id = uri article,
       source = \<lparr> src_id = ''nyt'', src_name = ''New York Times'' \<rparr>,
       title = nyt_title article,
       description = abstract article,
       url = nyt_url article,
       imageUrl = or_else (first_media_url article) DEFAULT_IMAGE_URL,
       publishedAt = published_date article,
       author = js_or (map_option strip_By (byline article)) None \<rparr>"

text \<open>
  The endpoint and the parameters of the New York Times request; \<open>section_arg\<close>
  is \<open>None\<close> when the caller leaves the section out, and defaults to \<^verbatim>\<open>'all'\<close>.
\<close>

definition nytEndpoint :: "string option \<Rightarrow> string option \<Rightarrow> string" where
  "nytEndpoint section_arg query =
     (let section = (case section_arg of None \<Rightarrow> ''all'' | Some s \<Rightarrow> s)
      in if truthy query then ''/search/v2/articlesearch.json''
         else ''/content/all/'' @ section @ ''.json'')"

definition nytParams :: "world \<Rightarrow> string option \<Rightarrow> string option \<Rightarrow> string option \<Rightarrow> params" where
  "nytParams w query from to =
     (let p0 = [(''api-key'', NYT_API_KEY w)];
          p1 = set_param_if ''q'' query p0;
          p2 = (case from of
                  None \<Rightarrow> p1
                | Some d \<Rightarrow> if d = [] then p1 else AList.update ''begin_date'' (strip_dashes d) p1)
      in (case to of
            None \<Rightarrow> p2
          | Some d \<Rightarrow> if d = [] then p2 else AList.update ''end_date'' (strip_dashes d) p2))"

definition fetchNYTArticles ::
  "world \<Rightarrow> string option \<Rightarrow> string option \<Rightarrow> string option \<Rightarrow> string option \<Rightarrow>
   NewsArticle list async" where
  "fetchNYTArticles w section_arg query from to =
     (let endpoint = nytEndpoint section_arg query;
          ps = nytParams w query from to
      in ([Get NytClient endpoint ps],
          case nytGet w endpoint ps of
            Inl e \<Rightarrow> Inl e
          | Inr d \<Rightarrow>
              (case (if truthy query then response_docs d else results d) of
                 None \<Rightarrow> Inl TypeError
               | Some articles \<Rightarrow>
                   Inr (map normalizeNYT
                         (filter (\<lambda>article. nyt_title article \<noteq> [] \<and> abstract article \<noteq> [])
                            articles)))))"

definition normalizeGuardian :: "GuardianArticle \<Rightarrow> NewsArticle" where
  "normalizeGuardian article =
     \<lparr> art_id = g_id article,
       source = \<lparr> src_id = ''guardian'', src_name = ''The Guardian'' \<rparr>,
       title = webTitle article,
       description = [],
       url = webUrl article,
       imageUrl = or_else (case g_fields article of None \<Rightarrow> None | Some f \<Rightarrow> thumbnail f)
                    DEFAULT_IMAGE_URL,
       publishedAt = webPublicationDate article,
       author = None \<rparr>"

text \<open>The parameters of the Guardian request.\<close>

definition guardianParams ::
  "world \<Rightarrow> string option \<Rightarrow> string option \<Rightarrow> string option \<Rightarrow> string option \<Rightarrow>
   string option \<Rightarrow> params" where
  "guardianParams w query section from to auth =
     (let p0 = [(''api-key'', GUARDIAN_API_KEY w), (''show-fields'', ''thumbnail'')];
          p1 = set_param_if ''q'' query p0;
          p2 = set_param_if ''section'' section p1;
          p3 = set_param_if ''from-date'' from p2;
          p4 = set_param_if ''to-date'' to p3
      in set_param_if ''author'' auth p4)"

definition fetchGuardianArticles ::
  "world \<Rightarrow> string option \<Rightarrow> string option \<Rightarrow> string option \<Rightarrow> string option \<Rightarrow>
   string option \<Rightarrow> NewsArticle list async" where
  "fetchGuardianArticles w query section from to auth =
     (let ps = guardianParams w query section from to auth
      in ([Get GuardianClient ''/search'' ps],
          case guardianGet w ''/search'' ps of
            Inl e \<Rightarrow> Inl e
          | Inr rs \<Rightarrow> Inr (map normalizeGuardian rs)))"

section \<open>Host functions: \<^verbatim>\<open>Array.prototype.sort\<close> and \<^verbatim>\<open>Promise.all\<close>\<close>

text \<open>
  \<^verbatim>\<open>sort(comparefn)\<close> is stable, and a comparator result of \<^verbatim>\<open>NaN\<close> (here
  \<open>None\<close>) counts as \<open>0\<close>. The model is the stable insertion sort: an element
  goes in front of the first element it does not have to follow. For a
  comparator that is a consistent ordering every stable sort returns this list.
  For one that is not (here: some date is no timestamp) the host's order is
  implementation-defined, and the model is one such order, not every engine's.
\<close>

definition sortCompare :: "('a \<Rightarrow> 'a \<Rightarrow> int option) \<Rightarrow> 'a \<Rightarrow> 'a \<Rightarrow> int" where
  "sortCompare comparefn x y = (case comparefn x y of None \<Rightarrow> 0 | Some v \<Rightarrow> v)"

fun insert_sorted :: "('a \<Rightarrow> 'a \<Rightarrow> int option) \<Rightarrow> 'a \<Rightarrow> 'a list \<Rightarrow> 'a list" where
  "insert_sorted comparefn x [] = [x]"
| "insert_sorted comparefn x (y # ys) =
     (if sortCompare comparefn x y \<le> 0 then x # y # ys
      else y # insert_sorted comparefn x ys)"

definition array_sort :: "('a \<Rightarrow> 'a \<Rightarrow> int option) \<Rightarrow> 'a list \<Rightarrow> 'a list" where
  "array_sort comparefn xs = foldr (insert_sorted comparefn) xs []"

text \<open>
  The promises given to \<^verbatim>\<open>Promise.all\<close> settle in some order: \<open>sched i\<close> is
  the moment the promise at index \<open>i\<close> settles, and promises settling at the same
  moment are taken by index. A fulfilled promise stores its value under its
  own index; the first rejection rejects the whole; when all are fulfilled the
  result is the array of the stored values, read by index.
\<close>

definition settle_order :: "(nat \<Rightarrow> nat) \<Rightarrow> nat \<Rightarrow> nat list" where
  "settle_order sched n = sort_key sched [0..<n]"

fun all_steps :: "(nat \<times> (error + 'a)) list \<Rightarrow> (nat \<times> 'a) list \<Rightarrow> error + 'a list" where
  "all_steps [] stored = Inr (map snd (sort_key fst stored))"
| "all_steps ((i, Inl e) # rest) stored = Inl e"
| "all_steps ((i, Inr v) # rest) stored = all_steps rest (stored @ [(i, v)])"

definition promise_all :: "(nat \<Rightarrow> nat) \<Rightarrow> (error + 'a) list \<Rightarrow> error + 'a list" where
  "promise_all sched outcomes =
     all_steps (map (\<lambda>i. (i, outcomes ! i)) (settle_order sched (length outcomes))) []"

section \<open>Aggregation service (src/services/newsService.ts)\<close>

text \<open>The comparator of both services: \<^verbatim>\<open>new Date(b.publishedAt).getTime() - new Date(a.publishedAt).getTime()\<close>.\<close>

definition byDateDesc :: "world \<Rightarrow> NewsArticle \<Rightarrow> NewsArticle \<Rightarrow> int option" where
  "byDateDesc w a b =
     (case (getTime w (publishedAt b), getTime w (publishedAt a)) of
        (Some tb, Some ta) \<Rightarrow> Some (tb - ta)
      | _ \<Rightarrow> None)"

text \<open>\<^verbatim>\<open>try { ... } catch (error) { console.error(...); return []; }\<close> around one source.\<close>

definition recover :: "'a list async \<Rightarrow> 'a list async" where
  "recover r = (fst r, case snd r of Inl e \<Rightarrow> Inr [] | Inr xs \<Rightarrow> Inr xs)"

text \<open>The body of the \<^verbatim>\<open>try\<close> of \<^verbatim>\<open>searchAllNews\<close> for one source.\<close>

definition searchSource :: "world \<Rightarrow> NewsFilters \<Rightarrow> NewsSource \<Rightarrow> NewsArticle list async" where
  "searchSource w filters src =
     (if src = ''nytimes'' \<and> truthy (searchQuery filters) then ([], Inr [])
      else if src = ''guardian'' then
        fetchGuardianArticles w (searchQuery filters) (category filters) (fromDate filters)
          (toDate filters) (filter_author filters)
      else if src = ''nytimes'' then
        fetchNYTArticles w (Some (or_else (category filters) ''all'')) None None None
      else if src = ''newsapi'' then
        fetchNewsApiArticles w (searchQuery filters) (category filters) (fromDate filters)
          (toDate filters) (filter_author filters)
      else ([], Inr []))"

text \<open>
  The service: one promise per source, in the order of \<open>sources\<close>, then
  \<^verbatim>\<open>Promise.all\<close>, \<^verbatim>\<open>flat\<close> and \<^verbatim>\<open>sort\<close>. The outer \<^verbatim>\<open>catch\<close> logs and
  throws again, so a rejection of \<^verbatim>\<open>Promise.all\<close> is the rejection of the service.
\<close>

definition searchAllNews ::
  "world \<Rightarrow> (nat \<Rightarrow> nat) \<Rightarrow> NewsSource list \<Rightarrow> NewsFilters \<Rightarrow> NewsArticle list async" where
  "searchAllNews w sched sources filters =
     (let searchPromises = map (\<lambda>src. recover (searchSource w filters src)) sources
      in (concat (map fst searchPromises),
          case promise_all sched (map snd searchPromises) of
            Inl e \<Rightarrow> Inl e
          | Inr rs \<Rightarrow> Inr (array_sort (byDateDesc w) (concat rs))))"

text \<open>The body of the \<^verbatim>\<open>try\<close> of \<^verbatim>\<open>getTopHeadlines\<close> for one source.\<close>

definition headlineSource :: "world \<Rightarrow> string option \<Rightarrow> NewsSource \<Rightarrow> NewsArticle list async" where
  "headlineSource w cat src =
     (if src = ''guardian'' then fetchGuardianArticles w None cat None None None
      else if src = ''nytimes'' then
        fetchNYTArticles w (Some (or_else cat ''all'')) None None None
      else if src = ''newsapi'' then fetchNewsApiArticles w None cat None None None
      else ([], Inr []))"

definition getTopHeadlines ::
  "world \<Rightarrow> (nat \<Rightarrow> nat) \<Rightarrow> NewsSource list \<Rightarrow> string option \<Rightarrow> NewsArticle list async" where
  "getTopHeadlines w sched sources cat =
     (let searchPromises = map (\<lambda>src. recover (headlineSource w cat src)) sources
      in (concat (map fst searchPromises),
          case promise_all sched (map snd searchPromises) of
            Inl e \<Rightarrow> Inl e
          | Inr rs \<Rightarrow> Inr (array_sort (byDateDesc w) (concat rs))))"

section \<open>Query hooks (hooks/useNewsQuery, in src/unnamed/part_001)\<close>

definition isSearching :: "NewsFilters \<Rightarrow> bool" where
  "isSearching filters =
     truthy (js_or (js_or (searchQuery filters) (fromDate filters)) (toDate filters))"

definition queryFn ::
  "world \<Rightarrow> (nat \<Rightarrow> nat) \<Rightarrow> NewsSource list \<Rightarrow> NewsFilters \<Rightarrow> NewsArticle list async" where
  "queryFn w sched sources filters =
     (if isSearching filters then searchAllNews w sched sources filters
      else getTopHeadlines w sched sources (category filters))"

text \<open>
  What \<^verbatim>\<open>useQuery\<close> hands back: nothing but \<^verbatim>\<open>isLoading\<close> while the query
  function has not settled, then its value as \<^verbatim>\<open>data\<close> or its rejection as
  \<^verbatim>\<open>error\<close>.
\<close>

record query_flags =
  isLoading :: bool
  isError :: bool
  query_error :: "error option"

record query_result = query_flags +
  data :: "NewsArticle list option"

record combined_news = query_flags +
  articles :: "NewsArticle list"
  failedSources :: "NewsSource list"
  hasPartialData :: bool

definition useQuery :: "(error + NewsArticle list) option \<Rightarrow> query_result" where
  "useQuery outcome =
     (case outcome of
        None \<Rightarrow> \<lparr> isLoading = True, isError = False, query_error = None, data = None \<rparr>
      | Some (Inl e) \<Rightarrow>
          \<lparr> isLoading = False, isError = True, query_error = Some e, data = None \<rparr>
      | Some (Inr d) \<Rightarrow>
          \<lparr> isLoading = False, isError = False, query_error = None, data = Some d \<rparr>)"

text \<open>\<open>settled\<close> tells whether the query function has settled for the current key.\<close>

definition useMultiSourceNews ::
  "world \<Rightarrow> (nat \<Rightarrow> nat) \<Rightarrow> bool \<Rightarrow> NewsSource list \<Rightarrow> NewsFilters \<Rightarrow> query_result" where
  "useMultiSourceNews w sched settled sources filters =
     useQuery (if settled then Some (snd (queryFn w sched sources filters)) else None)"

definition useCombinedNews ::
  "world \<Rightarrow> (nat \<Rightarrow> nat) \<Rightarrow> bool \<Rightarrow> NewsSource list \<Rightarrow> NewsFilters \<Rightarrow> combined_news" where
  "useCombinedNews w sched settled sources filters =
     (let q = useMultiSourceNews w sched settled sources filters;
          arts = (case data q of None \<Rightarrow> [] | Some d \<Rightarrow> d);
          failed = filter (\<lambda>src.
                     length (filter (\<lambda>article. src_id (source article) = src) arts) = 0)
                     sources
      in \<lparr> isLoading = isLoading q, isError = isError q, query_error = query_error q,
           articles = arts,
           failedSources = failed,
           hasPartialData = (length arts > 0 \<and> length failed < length sources) \<rparr>)"

section \<open>Stored preferences (PersonalizeDrawer, in src/unnamed/part_004)\<close>

text \<open>
  The value of \<^verbatim>\<open>JSON.parse\<close>. An object keeps its properties in order;
  of a number only its being zero matters here.
\<close>

datatype json =
  JNull | JBool bool | JNum int | JStr string | JArr "json list" | JObj "(string \<times> json) list"

fun json_truthy :: "json \<Rightarrow> bool" where
  "json_truthy JNull = False"
| "json_truthy (JBool b) = b"
| "json_truthy (JNum n) = (n \<noteq> 0)"
| "json_truthy (JStr s) = (s \<noteq> [])"
| "json_truthy (JArr xs) = True"
| "json_truthy (JObj ps) = True"

text \<open>\<^verbatim>\<open>authors[0] || ""\<close>\<close>

definition first_or_empty :: "json list \<Rightarrow> json" where
  "first_or_empty authors =
     (case authors of [] \<Rightarrow> JStr [] | x # _ \<Rightarrow> if json_truthy x then x else JStr [])"

text \<open>
  The migration of the effect that loads the preferences: from the parsed
  value to the value given to \<^verbatim>\<open>setPreferences\<close>. Reading a property of
  \<^verbatim>\<open>null\<close> throws; a value that is no object has no \<^verbatim>\<open>authors\<close>.
\<close>

definition migrate :: "json \<Rightarrow> error + json" where
  "migrate parsed =
     (case parsed of
        JNull \<Rightarrow> Inl TypeError
      | JObj props \<Rightarrow>
          (case map_of props ''authors'' of
             Some (JArr authors) \<Rightarrow>
               Inr (JObj (AList.delete ''authors''
                           (AList.update ''authorFilter'' (first_or_empty authors) props)))
           | _ \<Rightarrow> Inr parsed)
      | _ \<Rightarrow> Inr parsed)"

text \<open>
  The effect itself, for the preferences: \<open>saved\<close> is
  \<^verbatim>\<open>localStorage.getItem("newsHubPreferences")\<close>, \<open>JSON_parse\<close> the host's parser
  and \<open>preferences\<close> the state before. The result is the state after.
\<close>

definition loadPreferences ::
  "(string \<Rightarrow> error + json) \<Rightarrow> bool \<Rightarrow> string option \<Rightarrow> json \<Rightarrow> error + json" where
  "loadPreferences JSON_parse isOpen saved preferences =
     (if isOpen then
        (case saved of
           None \<Rightarrow> Inr preferences
         | Some s \<Rightarrow>
             if s = [] then Inr preferences
             else (case JSON_parse s of Inl e \<Rightarrow> Inl e | Inr parsed \<Rightarrow> migrate parsed))
      else Inr preferences)"

section \<open>Notions used to state the properties\<close>

text \<open>What one source contributes to the merged list: nothing when its attempt rejects.\<close>

definition surviving :: "'a list async \<Rightarrow> 'a list" where
  "surviving r = (case snd r of Inl e \<Rightarrow> [] | Inr xs \<Rightarrow> xs)"

text \<open>An attempt that rejects or resolves with no article.\<close>

definition rejects_or_empty :: "'a list async \<Rightarrow> bool" where
  "rejects_or_empty r = (case snd r of Inl e \<Rightarrow> True | Inr xs \<Rightarrow> xs = [])"

text \<open>\<open>a\<close> may stand before \<open>b\<close>: both dates are timestamps and \<open>b\<close> is not newer.\<close>

definition date_desc :: "world \<Rightarrow> NewsArticle \<Rightarrow> NewsArticle \<Rightarrow> bool" where
  "date_desc w a b =
     (case (getTime w (publishedAt a), getTime w (publishedAt b)) of
        (Some ta, Some tb) \<Rightarrow> tb \<le> ta
      | _ \<Rightarrow> False)"

text \<open>
  \<open>out\<close> is \<open>inp\<close> sorted by date, newest first, and stable: the same articles,
  in descending order, those of one timestamp in the order they have in \<open>inp\<close>.
\<close>

definition stable_newest_first :: "world \<Rightarrow> NewsArticle list \<Rightarrow> NewsArticle list \<Rightarrow> bool" where
  "stable_newest_first w inp out \<longleftrightarrow>
     mset out = mset inp \<and>
     sorted_wrt (date_desc w) out \<and>
     list_all (\<lambda>x. filter (\<lambda>a. getTime w (publishedAt a) = getTime w (publishedAt x)) out =
                   filter (\<lambda>a. getTime w (publishedAt a) = getTime w (publishedAt x)) inp) inp"

section \<open>Example data\<close>

definition example_getTime :: "string \<Rightarrow> int option" where
  "example_getTime s =
     map_of [(''2024-01-01'', 1704067200000),
             (''2024-01-02'', 1704153600000),
             (''2024-01-03'', 1704240000000)] s"

definition example_world ::
  "(error + NewsApiArticle list) \<Rightarrow> (error + NYTData) \<Rightarrow> (error + GuardianArticle list) \<Rightarrow> world"
  where
  "example_world na ny gu =
     \<lparr> newsApiGet = (\<lambda>endpoint ps. na), nytGet = (\<lambda>endpoint ps. ny),
       guardianGet = (\<lambda>endpoint ps. gu),
       NYT_API_KEY = ''k1'', GUARDIAN_API_KEY = ''k2'', getTime = example_getTime \<rparr>"

definition guardian_item :: "string \<Rightarrow> string \<Rightarrow> GuardianArticle" where
  "guardian_item i date =
     \<lparr> g_id = i, webTitle = ''G'', webUrl = ''g.example'', webPublicationDate = date,
       g_fields = Some \<lparr> thumbnail = None, bodyText = Some ''body'', trailText = Some ''trail'',
                         fields_byline = Some ''Jane Doe'' \<rparr> \<rparr>"

definition newsapi_item :: "string option \<Rightarrow> string \<Rightarrow> string \<Rightarrow> NewsApiArticle" where
  "newsapi_item outlet t date =
     \<lparr> na_source = \<lparr> na_id = outlet, na_name = ''Outlet'' \<rparr>, na_author = None,
       na_title = t, na_description = ''d'', na_url = ''n.example'', na_urlToImage = None,
       na_publishedAt = date, na_content = ''c'' \<rparr>"

definition nyt_item :: "string \<Rightarrow> string \<Rightarrow> NYTArticle" where
  "nyt_item i date =
     \<lparr> uri = i, nyt_title = ''N'', abstract = ''a'', nyt_url = ''y.example'',
       multimedia = Some [], published_date = date, byline = Some ''By Jane Doe'' \<rparr>"

definition nyt_results :: "NYTArticle list \<Rightarrow> NYTData" where
  "nyt_results xs = \<lparr> response_docs = None, results = Some xs \<rparr>"

definition filters_of :: "string option \<Rightarrow> string option \<Rightarrow> string option \<Rightarrow> NewsFilters" where
  "filters_of q cat from =
     \<lparr> searchQuery = q, category = cat, fromDate = from, toDate = None, filter_author = None \<rparr>"

definition all_sources :: "NewsSource list" where
  "all_sources = [''newsapi'', ''guardian'', ''nytimes'']"

text \<open>Two settling orders: by index, and the last promise first.\<close>

definition in_order :: "nat \<Rightarrow> nat" where
  "in_order i = i"

definition last_first :: "nat \<Rightarrow> nat" where
  "last_first i = 10 - i"

text \<open>All three providers answer.\<close>

definition example_ok :: world where
  "example_ok = example_world
     (Inr [newsapi_item (Some ''bbc-news'') ''A'' ''2024-01-02''])
     (Inr (nyt_results [nyt_item ''y1'' ''2024-01-02'']))
     (Inr [guardian_item ''g1'' ''2024-01-01'', guardian_item ''g2'' ''2024-01-03''])"

text \<open>NewsAPI rejects, the other two answer.\<close>

definition example_newsapi_down :: world where
  "example_newsapi_down = example_world
     (Inl (RequestFailed ''429''))
     (Inr (nyt_results [nyt_item ''y1'' ''2024-01-02'']))
     (Inr [guardian_item ''g1'' ''2024-01-01'', guardian_item ''g2'' ''2024-01-03''])"

text \<open>The Guardian answers with an article whose date is the empty string.\<close>

definition example_undated :: world where
  "example_undated = example_world (Inl TypeError) (Inl TypeError)
     (Inr [guardian_item ''g1'' ''2024-01-01'', guardian_item ''gx'' [],
           guardian_item ''g2'' ''2024-01-02''])"

text \<open>
  NewsAPI answers with an article that has an empty title, the Guardian with
  an item whose strings are all empty.
\<close>

definition blank_guardian_item :: GuardianArticle where
  "blank_guardian_item =
     \<lparr> g_id = [], webTitle = [], webUrl = [], webPublicationDate = [], g_fields = None \<rparr>"

definition example_blank :: world where
  "example_blank = example_world
     (Inr [newsapi_item (Some ''bbc-news'') [] ''2024-01-02''])
     (Inl TypeError)
     (Inr [blank_guardian_item])"

text \<open>NewsAPI answers with an article of an outlet whose id is \<^verbatim>\<open>nytimes\<close>.\<close>

definition example_outlet :: world where
  "example_outlet = example_world
     (Inr [newsapi_item (Some ''nytimes'') ''A'' ''2024-01-02''])
     (Inr (nyt_results [nyt_item ''y1'' ''2024-01-02'']))
     (Inr [guardian_item ''g1'' ''2024-01-01''])"

text \<open>
  Two stored preference records, \<^verbatim>\<open>{"authors":["Jane Doe"]}\<close> and
  \<^verbatim>\<open>{"authors":[null]}\<close>, and the host's parser on them.
\<close>

definition dq :: string where
  "dq = [CHR 0x22]"

definition stored_jane :: string where
  "stored_jane = ''{'' @ dq @ ''authors'' @ dq @ '':['' @ dq @ ''Jane Doe'' @ dq @ '']}''"

definition stored_null :: string where
  "stored_null = ''{'' @ dq @ ''authors'' @ dq @ '':[null]}''"

definition example_parse :: "string \<Rightarrow> error + json" where
  "example_parse s =
     (if s = stored_jane then Inr (JObj [(''authors'', JArr [JStr ''Jane Doe''])])
      else if s = stored_null then Inr (JObj [(''authors'', JArr [JNull])])
      else Inl SyntaxError)"

definition default_preferences :: json where
  "default_preferences =
     JObj [(''categories'', JArr []), (''authorFilter'', JStr []), (''sources'', JArr [])]"

text \<open>NewsAPI and the New York Times reject, the Guardian answers with no article.\<close>

definition example_all_down :: world where
  "example_all_down = example_world (Inl (RequestFailed ''500'')) (Inl TypeError) (Inr [])"

section \<open>Auxiliary facts\<close>

subsection \<open>\<^verbatim>\<open>Promise.all\<close> and the sort\<close>

lemma all_steps_resolved:
  "\<forall>p\<in>set ps. \<not> isl (snd p) \<Longrightarrow>
   all_steps ps stored = Inr (map snd (sort_key fst (stored @ map (\<lambda>p. (fst p, projr (snd p))) ps)))"
proof (induction ps arbitrary: stored)
  case Nil
  then show ?case by simp
next
  case (Cons p ps)
  obtain i r where p: "p = (i, r)" by (cases p)
  from Cons.prems p obtain v where r: "r = Inr v" by (cases r) auto
  from Cons.prems have "\<forall>q\<in>set ps. \<not> isl (snd q)" by simp
  from Cons.IH [OF this, of "stored @ [(i, v)]"] show ?case by (simp add: p r)
qed

lemma mset_settle_order: "mset (settle_order sched n) = mset [0..<n]"
  by (simp add: settle_order_def)

lemma set_settle_order: "set (settle_order sched n) = {0..<n}"
  by (simp add: settle_order_def)

lemma filter_index_perm:
  assumes "mset p = mset [0..<n]"
  shows "filter (\<lambda>j. i = j) p = filter (\<lambda>j. i = j) [0..<n]"
proof -
  have d: "distinct p" using assms by (metis distinct_upt mset_eq_imp_distinct_iff)
  have s: "set p = {0..<n}" using assms by (metis mset_eq_setD set_upt)
  show ?thesis
  proof (cases "i < n")
    case True
    then have "i \<in> set p" using s by simp
    then have "filter (\<lambda>j. i = j) p = [i]" using d
      by (induction p) (auto simp: filter_empty_conv)
    moreover have "filter (\<lambda>j. i = j) [0..<n] = [i]" using True
      by (induction n) (auto simp: less_Suc_eq)
    ultimately show ?thesis by simp
  next
    case False
    then have "i \<notin> set p" using s by simp
    then show ?thesis using False by (auto simp: filter_empty_conv)
  qed
qed

lemma sort_indexed_perm:
  assumes "mset p = mset [0..<n]"
  shows "sort_key fst (map (\<lambda>i. (i, g i)) p) = map (\<lambda>i. (i, g i)) [0..<n]"
proof (rule properties_for_sort_key)
  show "mset (map (\<lambda>i. (i, g i)) [0..<n]) = mset (map (\<lambda>i. (i, g i)) p)"
    using assms by (metis mset_map)
next
  fix k :: "nat \<times> 'a"
  have "filter (\<lambda>x. fst k = fst x) (map (\<lambda>i. (i, g i)) q) =
        map (\<lambda>i. (i, g i)) (filter (\<lambda>j. fst k = j) q)" for q
    by (simp add: filter_map comp_def)
  then show "filter (\<lambda>x. fst k = fst x) (map (\<lambda>i. (i, g i)) [0..<n]) =
        filter (\<lambda>x. fst k = fst x) (map (\<lambda>i. (i, g i)) p)"
    using filter_index_perm [OF assms, of "fst k"] by simp
next
  show "sorted (map fst (map (\<lambda>i. (i, g i)) [0..<n]))"
    by (simp add: comp_def)
qed

lemma promise_all_resolved:
  assumes "\<forall>r\<in>set outcomes. \<not> isl r"
  shows "promise_all sched outcomes = Inr (map projr outcomes)"
proof -
  let ?n = "length outcomes"
  let ?p = "settle_order sched ?n"
  have in_range: "\<forall>i\<in>set ?p. i < ?n" by (simp add: set_settle_order)
  have "\<forall>q\<in>set (map (\<lambda>i. (i, outcomes ! i)) ?p). \<not> isl (snd q)"
    using assms in_range by simp
  from all_steps_resolved [OF this, of "[]"]
  have "promise_all sched outcomes =
        Inr (map snd (sort_key fst (map (\<lambda>i. (i, projr (outcomes ! i))) ?p)))"
    by (simp add: promise_all_def comp_def)
  also have "sort_key fst (map (\<lambda>i. (i, projr (outcomes ! i))) ?p) =
        map (\<lambda>i. (i, projr (outcomes ! i))) [0..<?n]"
    by (rule sort_indexed_perm) (rule mset_settle_order)
  also have "map snd (map (\<lambda>i. (i, projr (outcomes ! i))) [0..<?n]) = map projr outcomes"
  proof -
    have "map snd (map (\<lambda>i. (i, projr (outcomes ! i))) [0..<?n]) =
          map projr (map (nth outcomes) [0..<?n])"
      by (simp add: comp_def)
    then show ?thesis by (simp only: map_nth)
  qed
  finally show ?thesis .
qed


text \<open>With two rejections the settling order decides which one is seen.\<close>

lemma promise_all_first_rejection:
  "promise_all in_order [Inl TypeError, Inl SyntaxError :: error + nat list] = Inl TypeError \<and>
   promise_all last_first [Inl TypeError, Inl SyntaxError :: error + nat list] = Inl SyntaxError"
  by code_simp

lemma mset_insert_sorted: "mset (insert_sorted c x ys) = add_mset x (mset ys)"
  by (induction ys) auto

lemma mset_array_sort: "mset (array_sort c xs) = mset xs"
  by (induction xs) (simp_all add: array_sort_def mset_insert_sorted)

lemma set_array_sort: "set (array_sort c xs) = set xs"
  using mset_array_sort [of c xs] by (rule mset_eq_setD)

lemma length_array_sort: "length (array_sort c xs) = length xs"
  using mset_array_sort [of c xs] by (rule mset_eq_length)

lemma recover_resolves: "\<not> isl (snd (recover r))"
  by (cases "snd r") (simp_all add: recover_def)

lemma projr_recover: "projr (snd (recover r)) = surviving r"
  by (cases "snd r") (simp_all add: recover_def surviving_def)

lemma fst_recover: "fst (recover r) = fst r"
  by (simp add: recover_def)

lemma promise_all_recovered:
  "promise_all sched (map (\<lambda>src. snd (recover (f src))) sources) =
   Inr (map (\<lambda>src. surviving (f src)) sources)"
proof -
  have "\<forall>r\<in>set (map (\<lambda>src. snd (recover (f src))) sources). \<not> isl r"
    by (simp add: recover_resolves)
  from promise_all_resolved [OF this]
  show ?thesis by (simp add: comp_def projr_recover)
qed

lemma searchAllNews_result:
  "snd (searchAllNews w sched sources filters) =
   Inr (array_sort (byDateDesc w)
         (concat (map (\<lambda>src. surviving (searchSource w filters src)) sources)))"
  using promise_all_recovered [of sched "searchSource w filters" sources]
  by (simp add: searchAllNews_def Let_def comp_def)

lemma getTopHeadlines_result:
  "snd (getTopHeadlines w sched sources cat) =
   Inr (array_sort (byDateDesc w)
         (concat (map (\<lambda>src. surviving (headlineSource w cat src)) sources)))"
  using promise_all_recovered [of sched "headlineSource w cat" sources]
  by (simp add: getTopHeadlines_def Let_def comp_def)

lemma insert_sorted_insort_key:
  assumes "getTime w (publishedAt x) \<noteq> None"
    and "\<forall>y\<in>set ys. getTime w (publishedAt y) \<noteq> None"
  shows "insert_sorted (byDateDesc w) x ys =
         insort_key (\<lambda>a. - the (getTime w (publishedAt a))) x ys"
  using assms by (induction ys) (auto simp: sortCompare_def byDateDesc_def)

lemma array_sort_sort_key:
  assumes "\<forall>x\<in>set xs. getTime w (publishedAt x) \<noteq> None"
  shows "array_sort (byDateDesc w) xs = sort_key (\<lambda>a. - the (getTime w (publishedAt a))) xs"
  using assms
proof (induction xs)
  case Nil
  then show ?case by (simp add: array_sort_def)
next
  case (Cons x xs)
  then have ih: "array_sort (byDateDesc w) xs =
      sort_key (\<lambda>a. - the (getTime w (publishedAt a))) xs" by simp
  have "array_sort (byDateDesc w) (x # xs) =
        insert_sorted (byDateDesc w) x (array_sort (byDateDesc w) xs)"
    by (simp add: array_sort_def)
  also have "\<dots> = insort_key (\<lambda>a. - the (getTime w (publishedAt a))) x
                     (array_sort (byDateDesc w) xs)"
    using Cons.prems by (intro insert_sorted_insort_key) (simp_all add: set_array_sort)
  finally show ?case by (simp add: ih)
qed

lemma array_sort_stable_newest_first:
  assumes "\<forall>x\<in>set xs. getTime w (publishedAt x) \<noteq> None"
  shows "stable_newest_first w xs (array_sort (byDateDesc w) xs)"
proof -
  let ?f = "\<lambda>a. - the (getTime w (publishedAt a))"
  let ?out = "sort_key ?f xs"
  have out: "array_sort (byDateDesc w) xs = ?out"
    by (rule array_sort_sort_key [OF assms])
  have key: "(getTime w (publishedAt a) = getTime w (publishedAt x)) = (?f a = ?f x)"
    if "a \<in> set xs" "x \<in> set xs" for a x
  proof -
    from assms that obtain ta tx where
      "getTime w (publishedAt a) = Some ta" "getTime w (publishedAt x) = Some tx"
      by (meson option.exhaust)
    then show ?thesis by simp
  qed
  have "sorted_wrt (\<lambda>a b. ?f a \<le> ?f b) ?out"
    using sorted_sort_key [of ?f xs] by (simp only: sorted_map)
  then have sorted: "sorted_wrt (date_desc w) ?out"
  proof (rule sorted_wrt_mono_rel [rotated])
    fix a b assume ab: "a \<in> set ?out" "b \<in> set ?out" "?f a \<le> ?f b"
    with assms obtain ta tb where
      "getTime w (publishedAt a) = Some ta" "getTime w (publishedAt b) = Some tb"
      by (metis option.exhaust set_sort)
    with ab show "date_desc w a b" by (simp add: date_desc_def)
  qed
  have stable: "filter (\<lambda>a. getTime w (publishedAt a) = getTime w (publishedAt x)) ?out =
                filter (\<lambda>a. getTime w (publishedAt a) = getTime w (publishedAt x)) xs"
    if x: "x \<in> set xs" for x
  proof -
    have "filter (\<lambda>a. getTime w (publishedAt a) = getTime w (publishedAt x)) ?out =
          filter (\<lambda>a. ?f a = ?f x) ?out"
      by (rule filter_cong) (simp_all add: key x)
    also have "\<dots> = filter (\<lambda>a. ?f a = ?f x) xs"
      by (rule sort_key_stable)
    also have "\<dots> = filter (\<lambda>a. getTime w (publishedAt a) = getTime w (publishedAt x)) xs"
      by (rule filter_cong) (simp_all add: key x)
    finally show ?thesis .
  qed
  show ?thesis
    unfolding stable_newest_first_def out
    using sorted stable by (simp add: list_all_iff)
qed

subsection \<open>Requests issued\<close>

lemma map_of_set_param_if:
  "map_of (set_param_if k v ps) k' = (if truthy v \<and> k' = k then v else map_of ps k')"
  by (cases v) (simp_all add: set_param_if_def truthy_def update_conv')

lemma fetchGuardianArticles_request:
  "\<exists>ps. fst (fetchGuardianArticles w q s f t a) = [Get GuardianClient ''/search'' ps] \<and>
        (truthy q \<longrightarrow> map_of ps ''q'' = q)"
proof -
  have "truthy q \<longrightarrow> map_of (guardianParams w q s f t a) ''q'' = q"
    by (simp add: guardianParams_def Let_def map_of_set_param_if)
  then show ?thesis by (simp add: fetchGuardianArticles_def Let_def)
qed

lemma fetchNewsApiArticles_request:
  "\<exists>ps. fst (fetchNewsApiArticles w q c f t a) =
          [Get NewsApiClient (if truthy q then ''/everything'' else ''/top-headlines'') ps] \<and>
        (truthy q \<longrightarrow> map_of ps ''q'' = q)"
proof -
  have "truthy q \<longrightarrow> map_of (newsApiParams q c f t a) ''q'' = q"
    by (simp add: newsApiParams_def Let_def map_of_set_param_if update_conv')
  then show ?thesis by (simp add: fetchNewsApiArticles_def newsApiEndpoint_def Let_def)
qed

lemma fetchNYTArticles_request:
  "\<exists>endpoint ps. fst (fetchNYTArticles w s q f t) = [Get NytClient endpoint ps]"
  by (simp add: fetchNYTArticles_def Let_def)

lemma searchSource_requests:
  "r \<in> set (fst (searchSource w filters src)) \<Longrightarrow>
   (\<exists>endpoint ps. r = Get GuardianClient endpoint ps \<and> src = ''guardian'') \<or>
   (\<exists>endpoint ps. r = Get NewsApiClient endpoint ps \<and> src = ''newsapi'') \<or>
   (\<exists>endpoint ps. r = Get NytClient endpoint ps \<and> src = ''nytimes'' \<and>
      \<not> truthy (searchQuery filters))"
  using fetchGuardianArticles_request [of w "searchQuery filters" "category filters"
      "fromDate filters" "toDate filters" "filter_author filters"]
    fetchNewsApiArticles_request [of w "searchQuery filters" "category filters"
      "fromDate filters" "toDate filters" "filter_author filters"]
    fetchNYTArticles_request [of w "Some (or_else (category filters) ''all'')" None None None]
  by (auto simp: searchSource_def split: if_splits)

lemma fst_searchAllNews:
  "fst (searchAllNews w sched sources filters) =
   concat (map (\<lambda>src. fst (searchSource w filters src)) sources)"
  by (simp add: searchAllNews_def Let_def comp_def fst_recover)

lemma fst_getTopHeadlines:
  "fst (getTopHeadlines w sched sources cat) =
   concat (map (\<lambda>src. fst (headlineSource w cat src)) sources)"
  by (simp add: getTopHeadlines_def Let_def comp_def fst_recover)

subsection \<open>Articles seen by the hooks\<close>

lemma normalized_src_id:
  "src_id (source (normalizeGuardian g)) = ''guardian''"
  "src_id (source (normalizeNYT y)) = ''nyt''"
  "src_id (source (normalizeNewsApi n)) = or_else (na_id (na_source n)) ''unknown''"
  by (simp_all add: normalizeGuardian_def normalizeNYT_def normalizeNewsApi_def)

lemma fetchGuardianArticles_ids:
  "snd (fetchGuardianArticles w q s f t a) = Inr arts \<Longrightarrow> x \<in> set arts \<Longrightarrow>
   src_id (source x) = ''guardian''"
  by (auto simp: fetchGuardianArticles_def Let_def normalized_src_id split: sum.splits)

lemma fetchNYTArticles_ids:
  "snd (fetchNYTArticles w s q f t) = Inr arts \<Longrightarrow> x \<in> set arts \<Longrightarrow>
   src_id (source x) = ''nyt''"
  by (auto simp: fetchNYTArticles_def Let_def normalized_src_id split: sum.splits option.splits)

lemma fetchNewsApiArticles_ids:
  "snd (fetchNewsApiArticles w q c f t a) = Inr arts \<Longrightarrow> x \<in> set arts \<Longrightarrow>
   \<exists>endpoint ps raw r. newsApiGet w endpoint ps = Inr raw \<and> r \<in> set raw \<and>
     src_id (source x) = or_else (na_id (na_source r)) ''unknown''"
  unfolding fetchNewsApiArticles_def Let_def
  by (auto simp: normalized_src_id split: sum.splits) blast

lemma or_else_unknown: "or_else v ''unknown'' = ''nytimes'' \<Longrightarrow> v = Some ''nytimes''"
  by (auto simp: or_else_def split: option.splits if_splits)

lemma searchSource_ids:
  assumes "snd (searchSource w filters src) = Inr arts" and "x \<in> set arts"
  shows "src_id (source x) = ''guardian'' \<or> src_id (source x) = ''nyt'' \<or>
         (src = ''newsapi'' \<and>
          (\<exists>endpoint ps raw r. newsApiGet w endpoint ps = Inr raw \<and> r \<in> set raw \<and>
             src_id (source x) = or_else (na_id (na_source r)) ''unknown''))"
  using assms
    fetchGuardianArticles_ids [of w "searchQuery filters" "category filters" "fromDate filters"
      "toDate filters" "filter_author filters" arts x]
    fetchNYTArticles_ids [of w "Some (or_else (category filters) ''all'')" None None None arts x]
    fetchNewsApiArticles_ids [of w "searchQuery filters" "category filters" "fromDate filters"
      "toDate filters" "filter_author filters" arts x]
  by (simp add: searchSource_def split: if_splits)

lemma headlineSource_ids:
  assumes "snd (headlineSource w cat src) = Inr arts" and "x \<in> set arts"
  shows "src_id (source x) = ''guardian'' \<or> src_id (source x) = ''nyt'' \<or>
         (src = ''newsapi'' \<and>
          (\<exists>endpoint ps raw r. newsApiGet w endpoint ps = Inr raw \<and> r \<in> set raw \<and>
             src_id (source x) = or_else (na_id (na_source r)) ''unknown''))"
  using assms
    fetchGuardianArticles_ids [of w None cat None None None arts x]
    fetchNYTArticles_ids [of w "Some (or_else cat ''all'')" None None None arts x]
    fetchNewsApiArticles_ids [of w None cat None None None arts x]
  by (simp add: headlineSource_def split: if_splits)

text \<open>The attempt that the query function makes for one source.\<close>

lemma attempt_ids:
  assumes "x \<in> set (surviving (if isSearching filters then searchSource w filters src
                                 else headlineSource w (category filters) src))"
  shows "src_id (source x) = ''guardian'' \<or> src_id (source x) = ''nyt'' \<or>
         (src = ''newsapi'' \<and>
          (\<exists>endpoint ps raw r. newsApiGet w endpoint ps = Inr raw \<and> r \<in> set raw \<and>
             src_id (source x) = or_else (na_id (na_source r)) ''unknown''))"
proof -
  let ?r = "if isSearching filters then searchSource w filters src
            else headlineSource w (category filters) src"
  from assms obtain arts where r: "snd ?r = Inr arts" and x: "x \<in> set arts"
    by (cases "snd ?r") (auto simp: surviving_def)
  show ?thesis
  proof (cases "isSearching filters")
    case True
    with r x searchSource_ids [of w filters src arts x] show ?thesis by simp
  next
    case False
    with r x headlineSource_ids [of w "category filters" src arts x] show ?thesis by simp
  qed
qed

lemma snd_queryFn:
  "snd (queryFn w sched sources filters) =
   Inr (array_sort (byDateDesc w)
         (concat (map (\<lambda>src. surviving (if isSearching filters then searchSource w filters src
                                         else headlineSource w (category filters) src))
                    sources)))"
  by (simp add: queryFn_def searchAllNews_result getTopHeadlines_result)

lemma articles_useCombinedNews:
  "articles (useCombinedNews w sched settled sources filters) =
   (if settled then
      array_sort (byDateDesc w)
        (concat (map (\<lambda>src. surviving (if isSearching filters then searchSource w filters src
                                        else headlineSource w (category filters) src))
                   sources))
    else [])"
  by (simp add: useCombinedNews_def Let_def useMultiSourceNews_def useQuery_def snd_queryFn)

lemma failedSources_useCombinedNews:
  "failedSources (useCombinedNews w sched settled sources filters) =
   filter (\<lambda>src. \<forall>a\<in>set (articles (useCombinedNews w sched settled sources filters)).
                   src_id (source a) \<noteq> src) sources"
  by (simp add: useCombinedNews_def Let_def filter_empty_conv)

lemma hasPartialData_useCombinedNews:
  "hasPartialData (useCombinedNews w sched settled sources filters) =
   (articles (useCombinedNews w sched settled sources filters) \<noteq> [] \<and>
    length (failedSources (useCombinedNews w sched settled sources filters)) < length sources)"
  by (simp add: useCombinedNews_def Let_def)

lemma length_filter_less_iff:
  "length (filter P xs) < length xs \<longleftrightarrow> (\<exists>x\<in>set xs. \<not> P x)"
  by (metis filter_id_conv length_filter_le nat_less_le length_filter_less)

section \<open>Properties\<close>

subsection \<open>Partial data\<close>

text \<open>
  C1 (as amended). \<open>useCombinedNews\<close> returns \<open>hasPartialData = true\<close> exactly when
  the merged article list is non-empty and not every selected source is
  classified as failed, none being failed included; a source is classified as
  failed exactly when it is selected and no merged article carries its tag as
  \<open>source.id\<close>. In particular, when the attempt for every selected source
  rejects or returns no article, \<open>hasPartialData\<close> is false.
\<close>

theorem partial_data_flag:
  "(hasPartialData (useCombinedNews w sched settled sources filters) \<longleftrightarrow>
      articles (useCombinedNews w sched settled sources filters) \<noteq> [] \<and>
      (\<exists>src\<in>set sources.
         src \<notin> set (failedSources (useCombinedNews w sched settled sources filters)))) \<and>
   (\<forall>src. src \<in> set (failedSources (useCombinedNews w sched settled sources filters)) \<longleftrightarrow>
      src \<in> set sources \<and>
      (\<forall>a\<in>set (articles (useCombinedNews w sched settled sources filters)).
         src_id (source a) \<noteq> src)) \<and>
   ((\<forall>src\<in>set sources.
       rejects_or_empty (if isSearching filters then searchSource w filters src
                         else headlineSource w (category filters) src)) \<longrightarrow>
    \<not> hasPartialData (useCombinedNews w sched settled sources filters))"
proof -
  let ?r = "useCombinedNews w sched settled sources filters"
  have failed: "src \<in> set (failedSources ?r) \<longleftrightarrow>
      src \<in> set sources \<and> (\<forall>a\<in>set (articles ?r). src_id (source a) \<noteq> src)" for src
    by (subst failedSources_useCombinedNews) auto
  have "length (failedSources ?r) < length sources \<longleftrightarrow>
      (\<exists>src\<in>set sources. src \<notin> set (failedSources ?r))"
    by (subst failedSources_useCombinedNews, subst length_filter_less_iff) (auto simp: failed)
  then have flag: "hasPartialData ?r \<longleftrightarrow>
      articles ?r \<noteq> [] \<and> (\<exists>src\<in>set sources. src \<notin> set (failedSources ?r))"
    by (simp add: hasPartialData_useCombinedNews)
  have empty: "\<not> hasPartialData ?r"
    if "\<forall>src\<in>set sources.
       rejects_or_empty (if isSearching filters then searchSource w filters src
                         else headlineSource w (category filters) src)"
  proof -
    from that have "\<forall>src\<in>set sources.
        surviving (if isSearching filters then searchSource w filters src
                   else headlineSource w (category filters) src) = []"
      by (auto simp: rejects_or_empty_def surviving_def split: sum.splits)
    then have "concat (map (\<lambda>src. surviving
        (if isSearching filters then searchSource w filters src
         else headlineSource w (category filters) src)) sources) = []"
      by simp
    then have "articles ?r = []"
      by (simp only: articles_useCombinedNews) (simp add: array_sort_def)
    then show ?thesis by (simp add: hasPartialData_useCombinedNews)
  qed
  from flag failed empty show ?thesis by blast
qed

theorem partial_data_flag_witness:
  "hasPartialData (useCombinedNews example_newsapi_down in_order True all_sources
     (filters_of None None None)) \<and>
   failedSources (useCombinedNews example_newsapi_down in_order True all_sources
     (filters_of None None None)) = [''newsapi'', ''nytimes''] \<and>
   list_all (\<lambda>src. rejects_or_empty
       (if isSearching (filters_of None None None)
        then searchSource example_all_down (filters_of None None None) src
        else headlineSource example_all_down (category (filters_of None None None)) src))
     all_sources \<and>
   \<not> hasPartialData (useCombinedNews example_all_down in_order True all_sources
       (filters_of None None None))"
proof -
  have a: "articles (useCombinedNews example_newsapi_down in_order True all_sources
      (filters_of None None None)) \<noteq> []"
    by code_simp
  have f: "failedSources (useCombinedNews example_newsapi_down in_order True all_sources
     (filters_of None None None)) = [''newsapi'', ''nytimes'']"
    by code_simp
  have g: "''guardian'' \<in> set all_sources" "''guardian'' \<notin> set [''newsapi'', ''nytimes'']"
    by code_simp+
  have d: "list_all (\<lambda>src. rejects_or_empty
       (if isSearching (filters_of None None None)
        then searchSource example_all_down (filters_of None None None) src
        else headlineSource example_all_down (category (filters_of None None None)) src))
     all_sources"
    by code_simp
  from a f g partial_data_flag
    [of example_newsapi_down in_order True all_sources "filters_of None None None"]
  have 1: "hasPartialData (useCombinedNews example_newsapi_down in_order True all_sources
     (filters_of None None None))"
    by metis
  from d partial_data_flag
    [of example_all_down in_order True all_sources "filters_of None None None"]
  have 2: "\<not> hasPartialData (useCombinedNews example_all_down in_order True all_sources
       (filters_of None None None))"
    unfolding list_all_iff by blast
  from 1 f d 2 show ?thesis by blast
qed

text \<open>
  As stated the claim fails: with the Guardian alone selected and answering, no
  source is classified as failed, and \<open>hasPartialData\<close> is true all the same.
\<close>

theorem partial_data_without_failure_counterexample:
  "hasPartialData (useCombinedNews example_ok in_order True [''guardian'']
     (filters_of None None None)) \<and>
   failedSources (useCombinedNews example_ok in_order True [''guardian'']
     (filters_of None None None)) = [] \<and>
   length (articles (useCombinedNews example_ok in_order True [''guardian'']
     (filters_of None None None))) = 2"
  by code_simp

subsection \<open>The New York Times tag\<close>

text \<open>
  C2 (as amended). Every article that \<open>fetchNYTArticles\<close> produces has the
  \<open>source.id\<close> \<^verbatim>\<open>'nyt'\<close>, never the tag \<^verbatim>\<open>'nytimes'\<close>. Hence for every call of
  \<open>useCombinedNews\<close> whose sources include \<^verbatim>\<open>'nytimes'\<close>, the returned
  \<open>failedSources\<close> contains \<^verbatim>\<open>'nytimes'\<close>, also after a New York Times fetch
  that returned articles, provided that \<^verbatim>\<open>'newsapi'\<close> is not selected or no
  article in an answer of NewsAPI has the outlet id \<^verbatim>\<open>'nytimes'\<close>.
\<close>

theorem nytimes_classified_as_failed:
  assumes "''nytimes'' \<in> set sources"
    and "''newsapi'' \<in> set sources \<longrightarrow>
         (\<forall>endpoint ps raw. newsApiGet w endpoint ps = Inr raw \<longrightarrow>
            (\<forall>r\<in>set raw. na_id (na_source r) \<noteq> Some ''nytimes''))"
  shows "''nytimes'' \<in> set (failedSources (useCombinedNews w sched settled sources filters)) \<and>
         (\<forall>s q f t arts. snd (fetchNYTArticles w s q f t) = Inr arts \<longrightarrow>
            (\<forall>a\<in>set arts. src_id (source a) = ''nyt''))"
proof -
  let ?r = "useCombinedNews w sched settled sources filters"
  have "src_id (source a) \<noteq> ''nytimes''" if a: "a \<in> set (articles ?r)" for a
  proof -
    from a obtain src where src: "src \<in> set sources"
      and "a \<in> set (surviving (if isSearching filters then searchSource w filters src
                                 else headlineSource w (category filters) src))"
      by (auto simp: articles_useCombinedNews set_array_sort split: if_splits)
    from attempt_ids [OF this(2)] show ?thesis
    proof (elim disjE conjE exE)
      fix endpoint ps raw r
      assume "src = ''newsapi''" "newsApiGet w endpoint ps = Inr raw" "r \<in> set raw"
        and i: "src_id (source a) = or_else (na_id (na_source r)) ''unknown''"
      with src assms(2) have "na_id (na_source r) \<noteq> Some ''nytimes''" by blast
      with i or_else_unknown show ?thesis by metis
    qed simp_all
  qed
  with assms(1) have "''nytimes'' \<in> set (failedSources ?r)"
    by (subst failedSources_useCombinedNews) simp
  with fetchNYTArticles_ids show ?thesis by blast
qed

theorem nytimes_classified_as_failed_witness:
  "''nytimes'' \<in> set all_sources \<and>
   newsApiGet example_ok ''/top-headlines'' [(''country'', ''us''), (''pageSize'', ''20'')] =
     Inr [newsapi_item (Some ''bbc-news'') ''A'' ''2024-01-02''] \<and>
   snd (fetchNYTArticles example_ok (Some ''all'') None None None) =
     Inr [normalizeNYT (nyt_item ''y1'' ''2024-01-02'')] \<and>
   ''nytimes'' \<in> set (failedSources (useCombinedNews example_ok in_order True all_sources
                        (filters_of None None None)))"
proof -
  have a: "''nytimes'' \<in> set all_sources"
    by code_simp
  have b: "''newsapi'' \<in> set all_sources \<longrightarrow>
         (\<forall>endpoint ps raw. newsApiGet example_ok endpoint ps = Inr raw \<longrightarrow>
            (\<forall>r\<in>set raw. na_id (na_source r) \<noteq> Some ''nytimes''))"
    by (auto simp: example_ok_def example_world_def newsapi_item_def)
  have c: "newsApiGet example_ok ''/top-headlines'' [(''country'', ''us''), (''pageSize'', ''20'')] =
     Inr [newsapi_item (Some ''bbc-news'') ''A'' ''2024-01-02'']"
    by code_simp
  have d: "snd (fetchNYTArticles example_ok (Some ''all'') None None None) =
     Inr [normalizeNYT (nyt_item ''y1'' ''2024-01-02'')]"
    by code_simp
  from nytimes_classified_as_failed [OF a b, of in_order True "filters_of None None None"] a c d
  show ?thesis by blast
qed

text \<open>
  As stated for every adapter outcome the claim fails: NewsAPI answers with an
  article of an outlet whose id is \<^verbatim>\<open>nytimes\<close>, the heuristic counts it for the
  tag \<^verbatim>\<open>'nytimes'\<close>, and only \<^verbatim>\<open>'newsapi'\<close> is classified as failed.
\<close>

theorem nytimes_outlet_counterexample:
  "failedSources (useCombinedNews example_outlet in_order True all_sources
     (filters_of None None None)) = [''newsapi''] \<and>
   all_sources = [''newsapi'', ''guardian'', ''nytimes'']"
  by code_simp

subsection \<open>Fields of an article\<close>

text \<open>
  C3 (as amended). Every article produced by any of the three adapters has a
  non-empty \<open>imageUrl\<close>: it is the provider's image (NewsAPI's \<open>urlToImage\<close>,
  the Guardian's \<open>fields.thumbnail\<close>, the \<open>url\<close> of the first entry of the New
  York Times' \<open>multimedia\<close>) when that is present and not the empty string, and
  the fixed placeholder URL whenever the provider supplies no image. Every
  article of \<open>fetchNYTArticles\<close> has moreover a non-empty title and description,
  the items without one being dropped. The articles of an adapter are the
  items of the provider's answer, normalised one by one; the id, title, url
  and \<open>publishedAt\<close> of an article are the provider's own fields, taken over as
  they come.
\<close>

theorem adapters_image_never_empty:
  "(snd (fetchNewsApiArticles w q c f t a) = Inr arts \<longrightarrow>
      (\<exists>raw. arts = map normalizeNewsApi raw) \<and> (\<forall>x\<in>set arts. imageUrl x \<noteq> [])) \<and>
   (snd (fetchGuardianArticles w q c f t a) = Inr arts \<longrightarrow>
      (\<exists>raw. arts = map normalizeGuardian raw) \<and> (\<forall>x\<in>set arts. imageUrl x \<noteq> [])) \<and>
   (snd (fetchNYTArticles w s q f t) = Inr arts \<longrightarrow>
      (\<exists>raw. arts = map normalizeNYT raw) \<and>
      (\<forall>x\<in>set arts. imageUrl x \<noteq> [] \<and> title x \<noteq> [] \<and> description x \<noteq> [])) \<and>
   (art_id (normalizeNewsApi n) = na_url n \<and> title (normalizeNewsApi n) = na_title n \<and>
    url (normalizeNewsApi n) = na_url n \<and> publishedAt (normalizeNewsApi n) = na_publishedAt n) \<and>
   (art_id (normalizeGuardian g) = g_id g \<and> title (normalizeGuardian g) = webTitle g \<and>
    url (normalizeGuardian g) = webUrl g \<and>
    publishedAt (normalizeGuardian g) = webPublicationDate g) \<and>
   (art_id (normalizeNYT y) = uri y \<and> title (normalizeNYT y) = nyt_title y \<and>
    url (normalizeNYT y) = nyt_url y \<and> publishedAt (normalizeNYT y) = published_date y) \<and>
   DEFAULT_IMAGE_URL = ''https://via.placeholder.com/400x200?text=No+Image+Available'' \<and>
   imageUrl (normalizeNewsApi n) =
     (case na_urlToImage n of
        None \<Rightarrow> DEFAULT_IMAGE_URL
      | Some u \<Rightarrow> if u = [] then DEFAULT_IMAGE_URL else u) \<and>
   imageUrl (normalizeGuardian g) =
     (case g_fields g of
        None \<Rightarrow> DEFAULT_IMAGE_URL
      | Some fl \<Rightarrow>
          (case thumbnail fl of
             None \<Rightarrow> DEFAULT_IMAGE_URL
           | Some u \<Rightarrow> if u = [] then DEFAULT_IMAGE_URL else u)) \<and>
   imageUrl (normalizeNYT y) =
     (case multimedia y of
        None \<Rightarrow> DEFAULT_IMAGE_URL
      | Some [] \<Rightarrow> DEFAULT_IMAGE_URL
      | Some (m # ms) \<Rightarrow>
          (case media_url m of
             None \<Rightarrow> DEFAULT_IMAGE_URL
           | Some u \<Rightarrow> if u = [] then DEFAULT_IMAGE_URL else u)) \<and>
   (snd (fetchNewsApiArticles w q c f t a) = Inr arts \<longrightarrow>
      (\<exists>endpoint ps raw. newsApiGet w endpoint ps = Inr raw \<and>
         arts = map normalizeNewsApi raw)) \<and>
   (snd (fetchGuardianArticles w q c f t a) = Inr arts \<longrightarrow>
      (\<exists>endpoint ps raw. guardianGet w endpoint ps = Inr raw \<and>
         arts = map normalizeGuardian raw)) \<and>
   (snd (fetchNYTArticles w s q f t) = Inr arts \<longrightarrow>
      (\<exists>endpoint ps d raw. nytGet w endpoint ps = Inr d \<and>
         (if truthy q then response_docs d else results d) = Some raw \<and>
         arts = map normalizeNYT
           (filter (\<lambda>article. nyt_title article \<noteq> [] \<and> abstract article \<noteq> []) raw)))"
proof -
  have img: "or_else v DEFAULT_IMAGE_URL \<noteq> []" for v
    by (simp add: or_else_def DEFAULT_IMAGE_URL_def split: option.splits)
  have 1: "snd (fetchNewsApiArticles w q c f t a) = Inr arts \<longrightarrow>
      (\<exists>raw. arts = map normalizeNewsApi raw) \<and> (\<forall>x\<in>set arts. imageUrl x \<noteq> [])"
    by (auto simp: fetchNewsApiArticles_def Let_def normalizeNewsApi_def img split: sum.splits)
  have 2: "snd (fetchGuardianArticles w q c f t a) = Inr arts \<longrightarrow>
      (\<exists>raw. arts = map normalizeGuardian raw) \<and> (\<forall>x\<in>set arts. imageUrl x \<noteq> [])"
    by (auto simp: fetchGuardianArticles_def Let_def normalizeGuardian_def img split: sum.splits)
  have 3: "snd (fetchNYTArticles w s q f t) = Inr arts \<longrightarrow>
      (\<exists>raw. arts = map normalizeNYT raw) \<and>
      (\<forall>x\<in>set arts. imageUrl x \<noteq> [] \<and> title x \<noteq> [] \<and> description x \<noteq> [])"
    by (auto simp: fetchNYTArticles_def Let_def normalizeNYT_def img
        split: sum.splits option.splits)
  have 4: "(art_id (normalizeNewsApi n) = na_url n \<and> title (normalizeNewsApi n) = na_title n \<and>
    url (normalizeNewsApi n) = na_url n \<and> publishedAt (normalizeNewsApi n) = na_publishedAt n) \<and>
   (art_id (normalizeGuardian g) = g_id g \<and> title (normalizeGuardian g) = webTitle g \<and>
    url (normalizeGuardian g) = webUrl g \<and>
    publishedAt (normalizeGuardian g) = webPublicationDate g) \<and>
   (art_id (normalizeNYT y) = uri y \<and> title (normalizeNYT y) = nyt_title y \<and>
    url (normalizeNYT y) = nyt_url y \<and> publishedAt (normalizeNYT y) = published_date y)"
    by (simp add: normalizeNewsApi_def normalizeGuardian_def normalizeNYT_def)
  have 5: "DEFAULT_IMAGE_URL = ''https://via.placeholder.com/400x200?text=No+Image+Available''"
    by (simp only: DEFAULT_IMAGE_URL_def)
  have 6: "imageUrl (normalizeNewsApi n) =
     (case na_urlToImage n of
        None \<Rightarrow> DEFAULT_IMAGE_URL
      | Some u \<Rightarrow> if u = [] then DEFAULT_IMAGE_URL else u)"
    by (simp add: normalizeNewsApi_def or_else_def)
  have 7: "imageUrl (normalizeGuardian g) =
     (case g_fields g of
        None \<Rightarrow> DEFAULT_IMAGE_URL
      | Some fl \<Rightarrow>
          (case thumbnail fl of
             None \<Rightarrow> DEFAULT_IMAGE_URL
           | Some u \<Rightarrow> if u = [] then DEFAULT_IMAGE_URL else u))"
    by (simp add: normalizeGuardian_def or_else_def split: option.splits)
  have 8: "imageUrl (normalizeNYT y) =
     (case multimedia y of
        None \<Rightarrow> DEFAULT_IMAGE_URL
      | Some [] \<Rightarrow> DEFAULT_IMAGE_URL
      | Some (m # ms) \<Rightarrow>
          (case media_url m of
             None \<Rightarrow> DEFAULT_IMAGE_URL
           | Some u \<Rightarrow> if u = [] then DEFAULT_IMAGE_URL else u))"
    by (simp add: normalizeNYT_def or_else_def first_media_url_def
        split: option.splits list.splits)
  have 9: "snd (fetchNewsApiArticles w q c f t a) = Inr arts \<longrightarrow>
      (\<exists>endpoint ps raw. newsApiGet w endpoint ps = Inr raw \<and>
         arts = map normalizeNewsApi raw)"
    unfolding fetchNewsApiArticles_def Let_def snd_conv
    by (cases "newsApiGet w (newsApiEndpoint q) (newsApiParams q c f t a)") auto
  have 10: "snd (fetchGuardianArticles w q c f t a) = Inr arts \<longrightarrow>
      (\<exists>endpoint ps raw. guardianGet w endpoint ps = Inr raw \<and>
         arts = map normalizeGuardian raw)"
    unfolding fetchGuardianArticles_def Let_def snd_conv
    by (cases "guardianGet w ''/search'' (guardianParams w q c f t a)") auto
  have 11: "snd (fetchNYTArticles w s q f t) = Inr arts \<longrightarrow>
      (\<exists>endpoint ps d raw. nytGet w endpoint ps = Inr d \<and>
         (if truthy q then response_docs d else results d) = Some raw \<and>
         arts = map normalizeNYT
           (filter (\<lambda>article. nyt_title article \<noteq> [] \<and> abstract article \<noteq> []) raw))"
  proof (cases "nytGet w (nytEndpoint s q) (nytParams w q f t)")
    case (Inl e)
    then show ?thesis by (simp add: fetchNYTArticles_def Let_def)
  next
    case (Inr d)
    show ?thesis
    proof (cases "if truthy q then response_docs d else results d")
      case None
      with Inr show ?thesis by (simp add: fetchNYTArticles_def Let_def)
    next
      case (Some raw)
      show ?thesis
      proof
        assume "snd (fetchNYTArticles w s q f t) = Inr arts"
        with Inr Some have "arts = map normalizeNYT
           (filter (\<lambda>article. nyt_title article \<noteq> [] \<and> abstract article \<noteq> []) raw)"
          by (simp add: fetchNYTArticles_def Let_def)
        with Inr Some show "\<exists>endpoint ps d raw. nytGet w endpoint ps = Inr d \<and>
         (if truthy q then response_docs d else results d) = Some raw \<and>
         arts = map normalizeNYT
           (filter (\<lambda>article. nyt_title article \<noteq> [] \<and> abstract article \<noteq> []) raw)"
          by blast
      qed
    qed
  qed
  show ?thesis
    by (intro conjI 1 2 3 5 6 7 8 9 10 11 4 [THEN conjunct1] 4 [THEN conjunct2, THEN conjunct1]
        4 [THEN conjunct2, THEN conjunct2])
qed

theorem adapters_image_never_empty_witness:
  "snd (fetchNewsApiArticles example_ok None None None None None) =
     Inr [normalizeNewsApi (newsapi_item (Some ''bbc-news'') ''A'' ''2024-01-02'')] \<and>
   snd (fetchGuardianArticles example_ok None None None None None) =
     Inr (map normalizeGuardian
           [guardian_item ''g1'' ''2024-01-01'', guardian_item ''g2'' ''2024-01-03'']) \<and>
   snd (fetchNYTArticles example_ok None None None None) =
     Inr [normalizeNYT (nyt_item ''y1'' ''2024-01-02'')] \<and>
   na_urlToImage (newsapi_item (Some ''bbc-news'') ''A'' ''2024-01-02'') = None \<and>
   imageUrl (normalizeNewsApi (newsapi_item (Some ''bbc-news'') ''A'' ''2024-01-02'')) \<noteq> [] \<and>
   imageUrl (normalizeGuardian (guardian_item ''g1'' ''2024-01-01'')) \<noteq> [] \<and>
   imageUrl (normalizeNYT (nyt_item ''y1'' ''2024-01-02'')) \<noteq> [] \<and>
   title (normalizeNYT (nyt_item ''y1'' ''2024-01-02'')) \<noteq> [] \<and>
   imageUrl (normalizeNewsApi (newsapi_item (Some ''bbc-news'') ''A'' ''2024-01-02'')) =
     ''https://via.placeholder.com/400x200?text=No+Image+Available'' \<and>
   imageUrl (normalizeGuardian (guardian_item ''g1'' ''2024-01-01'')) =
     ''https://via.placeholder.com/400x200?text=No+Image+Available'' \<and>
   imageUrl (normalizeNYT (nyt_item ''y1'' ''2024-01-02'')) =
     ''https://via.placeholder.com/400x200?text=No+Image+Available'' \<and>
   imageUrl (normalizeNewsApi
     (newsapi_item (Some ''bbc-news'') ''A'' ''2024-01-02''
        \<lparr> na_urlToImage := Some ''pic.example'' \<rparr>)) = ''pic.example'' \<and>
   imageUrl (normalizeGuardian
     (guardian_item ''g1'' ''2024-01-01''
        \<lparr> g_fields := Some \<lparr> thumbnail = Some ''thumb.example'', bodyText = None,
                              trailText = None, fields_byline = None \<rparr> \<rparr>)) = ''thumb.example'' \<and>
   imageUrl (normalizeNYT
     (nyt_item ''y1'' ''2024-01-02''
        \<lparr> multimedia := Some [\<lparr> media_url = Some ''media.example'', media_type = None \<rparr>] \<rparr>)) =
     ''media.example''"
proof -
  have n: "snd (fetchNewsApiArticles example_ok None None None None None) =
     Inr [normalizeNewsApi (newsapi_item (Some ''bbc-news'') ''A'' ''2024-01-02'')]"
    by code_simp
  have g: "snd (fetchGuardianArticles example_ok None None None None None) =
     Inr (map normalizeGuardian
           [guardian_item ''g1'' ''2024-01-01'', guardian_item ''g2'' ''2024-01-03''])"
    by code_simp
  have y: "snd (fetchNYTArticles example_ok None None None None) =
     Inr [normalizeNYT (nyt_item ''y1'' ''2024-01-02'')]"
    by code_simp
  have i: "na_urlToImage (newsapi_item (Some ''bbc-news'') ''A'' ''2024-01-02'') = None"
    by code_simp
  from adapters_image_never_empty [where w = example_ok and q = None and c = None and f = None
      and t = None and a = None
      and arts = "[normalizeNewsApi (newsapi_item (Some ''bbc-news'') ''A'' ''2024-01-02'')]"] n
  have "\<forall>x\<in>set [normalizeNewsApi (newsapi_item (Some ''bbc-news'') ''A'' ''2024-01-02'')].
      imageUrl x \<noteq> []"
    by blast
  then have 1:
    "imageUrl (normalizeNewsApi (newsapi_item (Some ''bbc-news'') ''A'' ''2024-01-02'')) \<noteq> []"
    by simp
  from adapters_image_never_empty [where w = example_ok and q = None and c = None and f = None
      and t = None and a = None
      and arts = "map normalizeGuardian
           [guardian_item ''g1'' ''2024-01-01'', guardian_item ''g2'' ''2024-01-03'']"] g
  have "\<forall>x\<in>set (map normalizeGuardian
           [guardian_item ''g1'' ''2024-01-01'', guardian_item ''g2'' ''2024-01-03'']).
      imageUrl x \<noteq> []"
    by blast
  then have 2: "imageUrl (normalizeGuardian (guardian_item ''g1'' ''2024-01-01'')) \<noteq> []"
    by simp
  from adapters_image_never_empty [where w = example_ok and q = None and s = None and f = None
      and t = None and arts = "[normalizeNYT (nyt_item ''y1'' ''2024-01-02'')]"] y
  have "\<forall>x\<in>set [normalizeNYT (nyt_item ''y1'' ''2024-01-02'')].
      imageUrl x \<noteq> [] \<and> title x \<noteq> [] \<and> description x \<noteq> []"
    by blast
  then have 3: "imageUrl (normalizeNYT (nyt_item ''y1'' ''2024-01-02'')) \<noteq> [] \<and>
      title (normalizeNYT (nyt_item ''y1'' ''2024-01-02'')) \<noteq> []"
    by simp
  have d: "DEFAULT_IMAGE_URL = ''https://via.placeholder.com/400x200?text=No+Image+Available''"
    using adapters_image_never_empty [where w = example_ok] by blast
  have 4: "imageUrl (normalizeNewsApi (newsapi_item (Some ''bbc-news'') ''A'' ''2024-01-02'')) =
     ''https://via.placeholder.com/400x200?text=No+Image+Available''"
  proof -
    from adapters_image_never_empty
      [where n = "newsapi_item (Some ''bbc-news'') ''A'' ''2024-01-02''"]
    have "imageUrl (normalizeNewsApi (newsapi_item (Some ''bbc-news'') ''A'' ''2024-01-02'')) =
      (case na_urlToImage (newsapi_item (Some ''bbc-news'') ''A'' ''2024-01-02'') of
        None \<Rightarrow> DEFAULT_IMAGE_URL
      | Some u \<Rightarrow> if u = [] then DEFAULT_IMAGE_URL else u)"
      by blast
    then show ?thesis by (simp only: i option.case d)
  qed
  have 5: "imageUrl (normalizeGuardian (guardian_item ''g1'' ''2024-01-01'')) =
     ''https://via.placeholder.com/400x200?text=No+Image+Available''"
  proof -
    from adapters_image_never_empty [where g = "guardian_item ''g1'' ''2024-01-01''"]
    have "imageUrl (normalizeGuardian (guardian_item ''g1'' ''2024-01-01'')) =
      (case g_fields (guardian_item ''g1'' ''2024-01-01'') of
        None \<Rightarrow> DEFAULT_IMAGE_URL
      | Some fl \<Rightarrow>
          (case thumbnail fl of
             None \<Rightarrow> DEFAULT_IMAGE_URL
           | Some u \<Rightarrow> if u = [] then DEFAULT_IMAGE_URL else u))"
      by blast
    then show ?thesis by (simp add: guardian_item_def d)
  qed
  have 6: "imageUrl (normalizeNYT (nyt_item ''y1'' ''2024-01-02'')) =
     ''https://via.placeholder.com/400x200?text=No+Image+Available''"
  proof -
    from adapters_image_never_empty [where y = "nyt_item ''y1'' ''2024-01-02''"]
    have "imageUrl (normalizeNYT (nyt_item ''y1'' ''2024-01-02'')) =
      (case multimedia (nyt_item ''y1'' ''2024-01-02'') of
        None \<Rightarrow> DEFAULT_IMAGE_URL
      | Some [] \<Rightarrow> DEFAULT_IMAGE_URL
      | Some (m # ms) \<Rightarrow>
          (case media_url m of
             None \<Rightarrow> DEFAULT_IMAGE_URL
           | Some u \<Rightarrow> if u = [] then DEFAULT_IMAGE_URL else u))"
      by blast
    then show ?thesis by (simp add: nyt_item_def d)
  qed
  have 7: "imageUrl (normalizeNewsApi
     (newsapi_item (Some ''bbc-news'') ''A'' ''2024-01-02''
        \<lparr> na_urlToImage := Some ''pic.example'' \<rparr>)) = ''pic.example''"
  proof -
    from adapters_image_never_empty
      [where n = "newsapi_item (Some ''bbc-news'') ''A'' ''2024-01-02''
        \<lparr> na_urlToImage := Some ''pic.example'' \<rparr>"]
    have "imageUrl (normalizeNewsApi
       (newsapi_item (Some ''bbc-news'') ''A'' ''2024-01-02''
          \<lparr> na_urlToImage := Some ''pic.example'' \<rparr>)) =
      (case na_urlToImage (newsapi_item (Some ''bbc-news'') ''A'' ''2024-01-02''
          \<lparr> na_urlToImage := Some ''pic.example'' \<rparr>) of
        None \<Rightarrow> DEFAULT_IMAGE_URL
      | Some u \<Rightarrow> if u = [] then DEFAULT_IMAGE_URL else u)"
      by blast
    then show ?thesis by simp
  qed
  have 8: "imageUrl (normalizeGuardian
     (guardian_item ''g1'' ''2024-01-01''
        \<lparr> g_fields := Some \<lparr> thumbnail = Some ''thumb.example'', bodyText = None,
                              trailText = None, fields_byline = None \<rparr> \<rparr>)) = ''thumb.example''"
  proof -
    from adapters_image_never_empty
      [where g = "guardian_item ''g1'' ''2024-01-01''
        \<lparr> g_fields := Some \<lparr> thumbnail = Some ''thumb.example'', bodyText = None,
                              trailText = None, fields_byline = None \<rparr> \<rparr>"]
    have "imageUrl (normalizeGuardian
       (guardian_item ''g1'' ''2024-01-01''
        \<lparr> g_fields := Some \<lparr> thumbnail = Some ''thumb.example'', bodyText = None,
                              trailText = None, fields_byline = None \<rparr> \<rparr>)) =
      (case g_fields (guardian_item ''g1'' ''2024-01-01''
        \<lparr> g_fields := Some \<lparr> thumbnail = Some ''thumb.example'', bodyText = None,
                              trailText = None, fields_byline = None \<rparr> \<rparr>) of
        None \<Rightarrow> DEFAULT_IMAGE_URL
      | Some fl \<Rightarrow>
          (case thumbnail fl of
             None \<Rightarrow> DEFAULT_IMAGE_URL
           | Some u \<Rightarrow> if u = [] then DEFAULT_IMAGE_URL else u))"
      by blast
    then show ?thesis by simp
  qed
  have 9: "imageUrl (normalizeNYT
     (nyt_item ''y1'' ''2024-01-02''
        \<lparr> multimedia := Some [\<lparr> media_url = Some ''media.example'', media_type = None \<rparr>] \<rparr>)) =
     ''media.example''"
  proof -
    from adapters_image_never_empty
      [where y = "nyt_item ''y1'' ''2024-01-02''
        \<lparr> multimedia := Some [\<lparr> media_url = Some ''media.example'', media_type = None \<rparr>] \<rparr>"]
    have "imageUrl (normalizeNYT
       (nyt_item ''y1'' ''2024-01-02''
        \<lparr> multimedia := Some [\<lparr> media_url = Some ''media.example'', media_type = None \<rparr>] \<rparr>)) =
      (case multimedia (nyt_item ''y1'' ''2024-01-02''
        \<lparr> multimedia := Some [\<lparr> media_url = Some ''media.example'', media_type = None \<rparr>] \<rparr>) of
        None \<Rightarrow> DEFAULT_IMAGE_URL
      | Some [] \<Rightarrow> DEFAULT_IMAGE_URL
      | Some (m # ms) \<Rightarrow>
          (case media_url m of
             None \<Rightarrow> DEFAULT_IMAGE_URL
           | Some u \<Rightarrow> if u = [] then DEFAULT_IMAGE_URL else u))"
      by blast
    then show ?thesis by simp
  qed
  show ?thesis
    by (intro conjI n g y i 1 2 3 [THEN conjunct1] 3 [THEN conjunct2] 4 5 6 7 8 9)
qed

text \<open>
  As stated the claim fails: NewsAPI answers with an article whose title is the
  empty string, the Guardian with an item whose id, title, url and date are
  empty, and the adapters hand them on as they are.
\<close>

theorem empty_fields_counterexample:
  "snd (fetchNewsApiArticles example_blank None None None None None) =
     Inr [normalizeNewsApi (newsapi_item (Some ''bbc-news'') [] ''2024-01-02'')] \<and>
   title (normalizeNewsApi (newsapi_item (Some ''bbc-news'') [] ''2024-01-02'')) = [] \<and>
   snd (fetchGuardianArticles example_blank None None None None None) =
     Inr [normalizeGuardian blank_guardian_item] \<and>
   art_id (normalizeGuardian blank_guardian_item) = [] \<and>
   title (normalizeGuardian blank_guardian_item) = [] \<and>
   url (normalizeGuardian blank_guardian_item) = [] \<and>
   publishedAt (normalizeGuardian blank_guardian_item) = []"
  by code_simp

subsection \<open>Order of the merged list\<close>

text \<open>
  C4 (as amended). Whenever every \<open>publishedAt\<close> of the surviving per-source arrays
  is a date the host can turn into a timestamp, the list that \<open>searchAllNews\<close>
  returns, and likewise the one that \<open>getTopHeadlines\<close> returns, is the
  concatenation of the surviving per-source arrays sorted by timestamp, newest
  first, with the articles of one timestamp in the order they have in the
  concatenation.
\<close>

theorem merged_list_sorted_stable:
  "((\<forall>a\<in>set (concat (map (\<lambda>src. surviving (searchSource w filters src)) sources)).
       getTime w (publishedAt a) \<noteq> None) \<longrightarrow>
    (\<exists>out. snd (searchAllNews w sched sources filters) = Inr out \<and>
       stable_newest_first w
         (concat (map (\<lambda>src. surviving (searchSource w filters src)) sources)) out)) \<and>
   ((\<forall>a\<in>set (concat (map (\<lambda>src. surviving (headlineSource w cat src)) sources)).
       getTime w (publishedAt a) \<noteq> None) \<longrightarrow>
    (\<exists>out. snd (getTopHeadlines w sched sources cat) = Inr out \<and>
       stable_newest_first w
         (concat (map (\<lambda>src. surviving (headlineSource w cat src)) sources)) out))"
  by (simp add: searchAllNews_result getTopHeadlines_result array_sort_stable_newest_first)

theorem merged_list_sorted_stable_witness:
  "list_all (\<lambda>a. getTime example_ok (publishedAt a) \<noteq> None)
     (concat (map (\<lambda>src. surviving
        (searchSource example_ok (filters_of None None (Some ''2024-01-01'')) src)) all_sources)) \<and>
   (\<exists>out. snd (searchAllNews example_ok last_first all_sources
               (filters_of None None (Some ''2024-01-01''))) = Inr out \<and>
      stable_newest_first example_ok
        (concat (map (\<lambda>src. surviving
           (searchSource example_ok (filters_of None None (Some ''2024-01-01'')) src)) all_sources))
        out) \<and>
   list_all (\<lambda>a. getTime example_ok (publishedAt a) \<noteq> None)
     (concat (map (\<lambda>src. surviving (headlineSource example_ok None src)) all_sources)) \<and>
   (\<exists>out. snd (getTopHeadlines example_ok last_first all_sources None) = Inr out \<and>
      stable_newest_first example_ok
        (concat (map (\<lambda>src. surviving (headlineSource example_ok None src)) all_sources)) out)"
proof -
  have s: "list_all (\<lambda>a. getTime example_ok (publishedAt a) \<noteq> None)
     (concat (map (\<lambda>src. surviving
        (searchSource example_ok (filters_of None None (Some ''2024-01-01'')) src)) all_sources))"
    by code_simp
  have h: "list_all (\<lambda>a. getTime example_ok (publishedAt a) \<noteq> None)
     (concat (map (\<lambda>src. surviving (headlineSource example_ok None src)) all_sources))"
    by code_simp
  from s h merged_list_sorted_stable
    [of example_ok "filters_of None None (Some ''2024-01-01'')" all_sources last_first None]
  show ?thesis unfolding list_all_iff by blast
qed

text \<open>
  As stated for all result arrays the claim fails: the empty string is no date,
  the comparator answers \<^verbatim>\<open>NaN\<close> for every pair it is part of, and the article
  of 1 January stays in front of the article of 2 January.
\<close>

theorem merged_list_unsorted_counterexample:
  "snd (searchAllNews example_undated in_order [''guardian''] (filters_of (Some ''x'') None None)) =
     Inr (map normalizeGuardian
           [guardian_item ''g1'' ''2024-01-01'', guardian_item ''gx'' [],
            guardian_item ''g2'' ''2024-01-02'']) \<and>
   getTime example_undated ''2024-01-01'' = Some 1704067200000 \<and>
   getTime example_undated [] = None \<and>
   getTime example_undated ''2024-01-02'' = Some 1704153600000 \<and>
   \<not> stable_newest_first example_undated
       (concat (map (\<lambda>src. surviving
          (searchSource example_undated (filters_of (Some ''x'') None None) src)) [''guardian'']))
       (projr (snd (searchAllNews example_undated in_order [''guardian'']
                     (filters_of (Some ''x'') None None))))"
  by code_simp

subsection \<open>One failing source\<close>

text \<open>
  C5. The attempt of \<open>searchAllNews\<close> for a source is the call of its adapter
  (for \<^verbatim>\<open>'nytimes'\<close> under a query, the empty array). When the attempts for
  the three selected sources are one rejection and two lists \<open>xs\<close> and \<open>ys\<close>,
  in any position, the service resolves: its result is a list holding every
  article of \<open>xs\<close> and of \<open>ys\<close> exactly as often as these do,
  \<open>length xs + length ys\<close> articles in all, and the rejection does not reach
  the caller.
\<close>

theorem one_rejection_keeps_the_rest:
  assumes "mset (map (\<lambda>src. snd (searchSource w filters src)) sources) =
           {#Inl e, Inr xs, Inr ys#}"
  shows "\<exists>out. snd (searchAllNews w sched sources filters) = Inr out \<and>
           mset out = mset xs + mset ys \<and> length out = length xs + length ys"
proof -
  let ?keep = "\<lambda>r. case r of Inl e \<Rightarrow> [] | Inr zs \<Rightarrow> zs"
  let ?all = "concat (map (\<lambda>src. surviving (searchSource w filters src)) sources)"
  have "mset ?all = (\<Sum>zs\<leftarrow>map (\<lambda>src. surviving (searchSource w filters src)) sources. mset zs)"
    by (rule mset_concat)
  also have "\<dots> = sum_mset (image_mset (\<lambda>r. mset (?keep r))
                      (mset (map (\<lambda>src. snd (searchSource w filters src)) sources)))"
    by (simp add: sum_mset_sum_list [symmetric] surviving_def comp_def
        image_mset.compositionality)
  also have "\<dots> = mset xs + mset ys"
    by (simp only: assms) simp
  finally have m: "mset (array_sort (byDateDesc w) ?all) = mset xs + mset ys"
    by (simp add: mset_array_sort)
  then have "length (array_sort (byDateDesc w) ?all) = length xs + length ys"
    by (metis length_append mset_append mset_eq_length)
  with m show ?thesis by (simp add: searchAllNews_result)
qed

theorem one_rejection_keeps_the_rest_witness:
  "mset (map (\<lambda>src. snd (searchSource example_newsapi_down
                       (filters_of None None (Some ''2024-01-01'')) src)) all_sources) =
     {#Inl (RequestFailed ''429''),
       Inr (map normalizeGuardian
             [guardian_item ''g1'' ''2024-01-01'', guardian_item ''g2'' ''2024-01-03'']),
       Inr (map normalizeNYT [nyt_item ''y1'' ''2024-01-02''])#} \<and>
   (\<exists>out. snd (searchAllNews example_newsapi_down in_order all_sources
               (filters_of None None (Some ''2024-01-01''))) = Inr out \<and>
      mset out = mset (map normalizeGuardian
             [guardian_item ''g1'' ''2024-01-01'', guardian_item ''g2'' ''2024-01-03'']) +
           mset (map normalizeNYT [nyt_item ''y1'' ''2024-01-02'']) \<and>
      length out = length (map normalizeGuardian
             [guardian_item ''g1'' ''2024-01-01'', guardian_item ''g2'' ''2024-01-03'']) +
           length (map normalizeNYT [nyt_item ''y1'' ''2024-01-02'']))"
proof -
  have h: "mset (map (\<lambda>src. snd (searchSource example_newsapi_down
                       (filters_of None None (Some ''2024-01-01'')) src)) all_sources) =
     {#Inl (RequestFailed ''429''),
       Inr (map normalizeGuardian
             [guardian_item ''g1'' ''2024-01-01'', guardian_item ''g2'' ''2024-01-03'']),
       Inr (map normalizeNYT [nyt_item ''y1'' ''2024-01-02''])#}"
    by code_simp
  from h one_rejection_keeps_the_rest [OF h, of in_order] show ?thesis by blast
qed

subsection \<open>The New York Times under a query\<close>

text \<open>
  C6. For every list of sources that contains \<^verbatim>\<open>'nytimes'\<close> and every filters
  object with a truthy \<open>searchQuery\<close>: the New York Times branch of
  \<open>searchAllNews\<close> resolves with the empty array and issues no request, and the
  whole call issues no request of the New York Times client, although every
  call of \<open>fetchNYTArticles\<close> issues one (so the adapter is not invoked).
  The Guardian and the NewsAPI branch are the calls of their adapters with the
  query, category, dates and author of the filters; when selected, their
  requests (the Guardian search, and NewsAPI's \<^verbatim>\<open>/everything\<close>, both with the
  query as \<^verbatim>\<open>q\<close>) are among the requests of the call.
\<close>

theorem nytimes_skipped_under_a_query:
  assumes "''nytimes'' \<in> set sources" and "truthy (searchQuery filters)"
  shows "recover (searchSource w filters ''nytimes'') = ([], Inr []) \<and>
    (\<forall>endpoint ps. Get NytClient endpoint ps \<notin> set (fst (searchAllNews w sched sources filters))) \<and>
    (\<forall>s q f t. \<exists>endpoint ps. fst (fetchNYTArticles w s q f t) = [Get NytClient endpoint ps]) \<and>
    searchSource w filters ''guardian'' =
      fetchGuardianArticles w (searchQuery filters) (category filters) (fromDate filters)
        (toDate filters) (filter_author filters) \<and>
    searchSource w filters ''newsapi'' =
      fetchNewsApiArticles w (searchQuery filters) (category filters) (fromDate filters)
        (toDate filters) (filter_author filters) \<and>
    (''guardian'' \<in> set sources \<longrightarrow>
       (\<exists>ps. Get GuardianClient ''/search'' ps \<in> set (fst (searchAllNews w sched sources filters)) \<and>
          map_of ps ''q'' = searchQuery filters)) \<and>
    (''newsapi'' \<in> set sources \<longrightarrow>
       (\<exists>ps. Get NewsApiClient ''/everything'' ps \<in> set (fst (searchAllNews w sched sources filters)) \<and>
          map_of ps ''q'' = searchQuery filters))"
proof -
  let ?log = "fst (searchAllNews w sched sources filters)"
  have nyt: "recover (searchSource w filters ''nytimes'') = ([], Inr [])"
    using assms(2) by (simp add: searchSource_def recover_def)
  have none: "Get NytClient endpoint ps \<notin> set ?log" for endpoint ps
  proof
    assume "Get NytClient endpoint ps \<in> set ?log"
    then obtain src where "Get NytClient endpoint ps \<in> set (fst (searchSource w filters src))"
      by (auto simp: fst_searchAllNews)
    from searchSource_requests [OF this] assms(2) show False by auto
  qed
  have g: "searchSource w filters ''guardian'' =
      fetchGuardianArticles w (searchQuery filters) (category filters) (fromDate filters)
        (toDate filters) (filter_author filters)"
    by (simp add: searchSource_def)
  have n: "searchSource w filters ''newsapi'' =
      fetchNewsApiArticles w (searchQuery filters) (category filters) (fromDate filters)
        (toDate filters) (filter_author filters)"
    by (simp add: searchSource_def)
  have gl: "\<exists>ps. Get GuardianClient ''/search'' ps \<in> set ?log \<and> map_of ps ''q'' = searchQuery filters"
    if "''guardian'' \<in> set sources"
  proof -
    from fetchGuardianArticles_request [of w "searchQuery filters" "category filters"
      "fromDate filters" "toDate filters" "filter_author filters"] assms(2)
    obtain ps where "fst (searchSource w filters ''guardian'') = [Get GuardianClient ''/search'' ps]"
      and "map_of ps ''q'' = searchQuery filters"
      unfolding g by auto
    with that show ?thesis by (force simp: fst_searchAllNews)
  qed
  have nl: "\<exists>ps. Get NewsApiClient ''/everything'' ps \<in> set ?log \<and> map_of ps ''q'' = searchQuery filters"
    if "''newsapi'' \<in> set sources"
  proof -
    from fetchNewsApiArticles_request [of w "searchQuery filters" "category filters"
      "fromDate filters" "toDate filters" "filter_author filters"] assms(2)
    obtain ps where "fst (searchSource w filters ''newsapi'') = [Get NewsApiClient ''/everything'' ps]"
      and "map_of ps ''q'' = searchQuery filters"
      unfolding n by auto
    with that show ?thesis by (force simp: fst_searchAllNews)
  qed
  from nyt none g n gl nl fetchNYTArticles_request show ?thesis by blast
qed

theorem nytimes_skipped_under_a_query_witness:
  "''nytimes'' \<in> set all_sources \<and> truthy (searchQuery (filters_of (Some ''x'') None None)) \<and>
   recover (searchSource example_ok (filters_of (Some ''x'') None None) ''nytimes'') = ([], Inr []) \<and>
   fst (searchAllNews example_ok in_order all_sources (filters_of (Some ''x'') None None)) =
     [Get NewsApiClient ''/everything'' [(''q'', ''x''), (''pageSize'', ''20'')],
      Get GuardianClient ''/search''
        [(''api-key'', ''k2''), (''show-fields'', ''thumbnail''), (''q'', ''x'')]]"
proof -
  have a: "''nytimes'' \<in> set all_sources"
    by code_simp
  have b: "truthy (searchQuery (filters_of (Some ''x'') None None))"
    by code_simp
  have c: "fst (searchAllNews example_ok in_order all_sources (filters_of (Some ''x'') None None)) =
     [Get NewsApiClient ''/everything'' [(''q'', ''x''), (''pageSize'', ''20'')],
      Get GuardianClient ''/search''
        [(''api-key'', ''k2''), (''show-fields'', ''thumbnail''), (''q'', ''x'')]]"
    by code_simp
  from nytimes_skipped_under_a_query [OF a b, of example_ok in_order] a b c
  show ?thesis by blast
qed

subsection \<open>Search mode and browse mode\<close>

text \<open>
  C7. For every filters object, \<open>useMultiSourceNews\<close> is in search mode exactly
  when at least one of \<open>searchQuery\<close>, \<open>fromDate\<close>, \<open>toDate\<close> is truthy; its
  query function is then \<open>searchAllNews\<close> on the sources and the filters, and
  otherwise \<open>getTopHeadlines\<close> on the sources and the category. A filters
  object with nothing but a category is served by \<open>getTopHeadlines\<close> with that
  category.
\<close>

theorem search_mode_routing:
  "isSearching filters =
     (truthy (searchQuery filters) \<or> truthy (fromDate filters) \<or> truthy (toDate filters)) \<and>
   queryFn w sched sources filters =
     (if truthy (searchQuery filters) \<or> truthy (fromDate filters) \<or> truthy (toDate filters)
      then searchAllNews w sched sources filters
      else getTopHeadlines w sched sources (category filters)) \<and>
   useMultiSourceNews w sched True sources filters =
     useQuery (Some (snd
       (if truthy (searchQuery filters) \<or> truthy (fromDate filters) \<or> truthy (toDate filters)
        then searchAllNews w sched sources filters
        else getTopHeadlines w sched sources (category filters)))) \<and>
   queryFn w sched sources
     \<lparr> searchQuery = None, category = cat, fromDate = None, toDate = None,
       filter_author = None \<rparr> = getTopHeadlines w sched sources cat"
proof -
  have s: "isSearching filters =
     (truthy (searchQuery filters) \<or> truthy (fromDate filters) \<or> truthy (toDate filters))"
    by (auto simp: isSearching_def js_or_def)
  have "isSearching \<lparr> searchQuery = None, category = cat, fromDate = None, toDate = None,
       filter_author = None \<rparr> = False"
    by (simp add: isSearching_def js_or_def truthy_def)
  then show ?thesis
    by (simp add: s [symmetric] queryFn_def useMultiSourceNews_def)
qed

theorem search_mode_routing_witness:
  "isSearching (filters_of None (Some ''science'') None) = False \<and>
   isSearching (filters_of None (Some ''science'') (Some ''2024-01-01'')) = True \<and>
   queryFn example_ok in_order all_sources (filters_of None (Some ''science'') None) =
     getTopHeadlines example_ok in_order all_sources (Some ''science'') \<and>
   queryFn example_ok in_order all_sources (filters_of None (Some ''science'') (Some ''2024-01-01'')) =
     searchAllNews example_ok in_order all_sources
       (filters_of None (Some ''science'') (Some ''2024-01-01''))"
proof -
  have a: "\<not> (truthy (searchQuery (filters_of None (Some ''science'') None)) \<or>
            truthy (fromDate (filters_of None (Some ''science'') None)) \<or>
            truthy (toDate (filters_of None (Some ''science'') None)))"
    by code_simp
  have b: "truthy (fromDate (filters_of None (Some ''science'') (Some ''2024-01-01'')))"
    by code_simp
  have c: "category (filters_of None (Some ''science'') None) = Some ''science''"
    by code_simp
  from a c search_mode_routing
    [of "filters_of None (Some ''science'') None" example_ok in_order all_sources]
  have 1: "isSearching (filters_of None (Some ''science'') None) = False \<and>
      queryFn example_ok in_order all_sources (filters_of None (Some ''science'') None) =
      getTopHeadlines example_ok in_order all_sources (Some ''science'')"
    by simp
  from b search_mode_routing
    [of "filters_of None (Some ''science'') (Some ''2024-01-01'')" example_ok in_order all_sources]
  have 2: "isSearching (filters_of None (Some ''science'') (Some ''2024-01-01'')) = True \<and>
      queryFn example_ok in_order all_sources
        (filters_of None (Some ''science'') (Some ''2024-01-01'')) =
      searchAllNews example_ok in_order all_sources
        (filters_of None (Some ''science'') (Some ''2024-01-01''))"
    by simp
  from 1 2 show ?thesis by blast
qed

subsection \<open>Settling order\<close>

text \<open>
  C8. For a fixed world, hence fixed per-source results, the requests issued and
  the merged list of \<open>searchAllNews\<close>, and likewise of \<open>getTopHeadlines\<close>, are
  the same for any two orders in which the concurrent requests settle.
\<close>

theorem merge_independent_of_settling:
  "searchAllNews w sched sources filters = searchAllNews w sched' sources filters \<and>
   getTopHeadlines w sched sources cat = getTopHeadlines w sched' sources cat"
proof -
  have "fst (searchAllNews w sched sources filters) = fst (searchAllNews w sched' sources filters)"
    by (simp add: searchAllNews_def Let_def)
  moreover have "fst (getTopHeadlines w sched sources cat) =
      fst (getTopHeadlines w sched' sources cat)"
    by (simp add: getTopHeadlines_def Let_def)
  ultimately show ?thesis
    by (simp add: prod_eq_iff searchAllNews_result getTopHeadlines_result)
qed

subsection \<open>Legacy preferences\<close>

text \<open>
  C9 (as amended). For every stored preference record whose parsed JSON is an
  object with an \<open>authors\<close> array, the preferences loaded by the
  personalization drawer have no \<open>authors\<close> field, and their \<open>authorFilter\<close>
  is the first element of that array when that element is truthy, and the
  empty string when the array is empty or its first element is falsy
  (\<^verbatim>\<open>null\<close>, \<^verbatim>\<open>false\<close>, \<^verbatim>\<open>0\<close> or the empty string); every other field
  is kept. In particular a record with authors \<^verbatim>\<open>["Jane Doe"]\<close> loads with the
  \<open>authorFilter\<close> \<^verbatim>\<open>"Jane Doe"\<close>.
\<close>

theorem legacy_authors_migrated:
  assumes "s \<noteq> []" and "JSON_parse s = Inr (JObj props)"
    and "map_of props ''authors'' = Some (JArr authors)"
  shows "\<exists>props'. loadPreferences JSON_parse True (Some s) preferences = Inr (JObj props') \<and>
     map_of props' ''authorFilter'' =
       Some (case authors of [] \<Rightarrow> JStr [] | x # _ \<Rightarrow> if json_truthy x then x else JStr []) \<and>
     map_of props' ''authors'' = None \<and>
     (\<forall>k. k \<noteq> ''authors'' \<and> k \<noteq> ''authorFilter'' \<longrightarrow> map_of props' k = map_of props k) \<and>
     (authors = [JStr ''Jane Doe''] \<longrightarrow> map_of props' ''authorFilter'' = Some (JStr ''Jane Doe''))"
proof -
  let ?props = "AList.delete ''authors''
      (AList.update ''authorFilter'' (first_or_empty authors) props)"
  have load: "loadPreferences JSON_parse True (Some s) preferences = Inr (JObj ?props)"
    using assms by (simp add: loadPreferences_def migrate_def)
  have filter: "map_of ?props ''authorFilter'' =
      Some (case authors of [] \<Rightarrow> JStr [] | x # _ \<Rightarrow> if json_truthy x then x else JStr [])"
    by (simp add: delete_conv' update_conv' first_or_empty_def)
  have gone: "map_of ?props ''authors'' = None"
    by (simp add: delete_conv')
  have kept: "\<forall>k. k \<noteq> ''authors'' \<and> k \<noteq> ''authorFilter'' \<longrightarrow> map_of ?props k = map_of props k"
    by (simp add: delete_conv' update_conv')
  have jane: "authors = [JStr ''Jane Doe''] \<longrightarrow>
      map_of ?props ''authorFilter'' = Some (JStr ''Jane Doe'')"
    by (simp add: delete_conv' update_conv' first_or_empty_def)
  show ?thesis
    by (rule exI [of _ ?props]) (intro conjI load filter gone kept jane)
qed

theorem legacy_authors_migrated_witness:
  "stored_jane \<noteq> [] \<and>
   example_parse stored_jane = Inr (JObj [(''authors'', JArr [JStr ''Jane Doe''])]) \<and>
   map_of [(''authors'', JArr [JStr ''Jane Doe''])] ''authors'' = Some (JArr [JStr ''Jane Doe'']) \<and>
   (\<exists>props'. loadPreferences example_parse True (Some stored_jane) default_preferences =
        Inr (JObj props') \<and>
      map_of props' ''authorFilter'' = Some (JStr ''Jane Doe'') \<and>
      map_of props' ''authors'' = None)"
proof -
  have a: "stored_jane \<noteq> []"
    by code_simp
  have b: "example_parse stored_jane = Inr (JObj [(''authors'', JArr [JStr ''Jane Doe''])])"
    by code_simp
  have c: "map_of [(''authors'', JArr [JStr ''Jane Doe''])] ''authors'' =
      Some (JArr [JStr ''Jane Doe''])"
    by code_simp
  from legacy_authors_migrated [where JSON_parse = example_parse and s = stored_jane
      and props = "[(''authors'', JArr [JStr ''Jane Doe''])]" and authors = "[JStr ''Jane Doe'']"
      and preferences = default_preferences, OF a b c] a b c
  show ?thesis by blast
qed

text \<open>
  As stated for every \<open>authors\<close> array the claim fails: the record
  \<^verbatim>\<open>{"authors":[null]}\<close> loads with the empty string as \<open>authorFilter\<close>, which
  is not the first element of the array.
\<close>

theorem null_author_counterexample:
  "example_parse stored_null = Inr (JObj [(''authors'', JArr [JNull])]) \<and>
   loadPreferences example_parse True (Some stored_null) default_preferences =
     Inr (JObj [(''authorFilter'', JStr [])]) \<and>
   JStr [] \<noteq> JNull"
  by code_simp

subsection \<open>Guardian articles\<close>

text \<open>
  C10. Every article that \<open>fetchGuardianArticles\<close> returns has the empty string
  as its description and no author, whatever the arguments and whatever the
  Guardian answers, also when the items carry \<open>trailText\<close>, \<open>bodyText\<close> or a
  byline.
\<close>

theorem guardian_articles_bare:
  "snd (fetchGuardianArticles w q s f t a) = Inr arts \<Longrightarrow>
   \<forall>x\<in>set arts. description x = [] \<and> author x = None"
  by (auto simp: fetchGuardianArticles_def Let_def normalizeGuardian_def split: sum.splits)

theorem guardian_articles_bare_witness:
  "snd (fetchGuardianArticles example_ok (Some ''x'') None None None None) =
     Inr (map normalizeGuardian
           [guardian_item ''g1'' ''2024-01-01'', guardian_item ''g2'' ''2024-01-03'']) \<and>
   map (\<lambda>i. map_option trailText (g_fields i))
     [guardian_item ''g1'' ''2024-01-01'', guardian_item ''g2'' ''2024-01-03''] =
     [Some (Some ''trail''), Some (Some ''trail'')] \<and>
   list_all (\<lambda>x. description x = [] \<and> author x = None)
     (map normalizeGuardian
           [guardian_item ''g1'' ''2024-01-01'', guardian_item ''g2'' ''2024-01-03''])"
proof -
  have h: "snd (fetchGuardianArticles example_ok (Some ''x'') None None None None) =
     Inr (map normalizeGuardian
           [guardian_item ''g1'' ''2024-01-01'', guardian_item ''g2'' ''2024-01-03''])"
    by code_simp
  have t: "map (\<lambda>i. map_option trailText (g_fields i))
     [guardian_item ''g1'' ''2024-01-01'', guardian_item ''g2'' ''2024-01-03''] =
     [Some (Some ''trail''), Some (Some ''trail'')]"
    by code_simp
  from h t guardian_articles_bare [OF h] show ?thesis
    unfolding list_all_iff by blast
qed

end
